theory Spec2Isabelle
  imports Complex_Main "HOL-Library.AList"
begin

section \<open>JavaScript values\<close>

text \<open>
  The proxy is a JavaScript program; its data is JSON read from the upstream platform and
  from the browser. Text is a list of characters, read as the code units 0 to 255. A
  number is a double: a finite one is the rational it equals, and the three special
  values are written out; the two zeros are not told apart, as nothing in the program
  tells them apart. A value that may be \<open>undefined\<close> is a \<open>json option\<close>, \<open>None\<close> being
  \<open>undefined\<close>.
\<close>

datatype jsnum = NaN | PInf | NInf | Fin rat

datatype json =
    JNull
  | JBool bool
  | JNum jsnum
  | JStr string
  | JArr "json list"
  | JObj "(string \<times> json) list"

text \<open>
  The two conversions between numbers and text (\<open>Number(s)\<close> on a string and
  \<open>String(n)\<close> on a number) are not re-implemented: they are parameters of the model.
\<close>

record ecma =
  StringToNumber :: "string \<Rightarrow> jsnum"
  NumberToString :: "jsnum \<Rightarrow> string"

datatype exn = FetchRejected | BodyRejected | TypeError | SyntaxError

subsection \<open>Truthiness, \<open>??\<close>, \<open>||\<close> and property access\<close>

fun num_truthy :: "jsnum \<Rightarrow> bool" where
  "num_truthy NaN = False"
| "num_truthy (Fin r) = (r \<noteq> 0)"
| "num_truthy _ = True"

fun truthy :: "json option \<Rightarrow> bool" where
  "truthy None = False"
| "truthy (Some JNull) = False"
| "truthy (Some (JBool b)) = b"
| "truthy (Some (JNum n)) = num_truthy n"
| "truthy (Some (JStr s)) = (s \<noteq> [])"
| "truthy (Some (JArr _)) = True"
| "truthy (Some (JObj _)) = True"

fun nullish :: "json option \<Rightarrow> bool" where
  "nullish None = True"
| "nullish (Some JNull) = True"
| "nullish _ = False"

definition js_or :: "json option \<Rightarrow> json option \<Rightarrow> json option" where
  \<comment> \<open>\<open>a || b\<close>\<close>
  "js_or a b = (if truthy a then a else b)"

definition js_coalesce :: "json option \<Rightarrow> json \<Rightarrow> json" where
  \<comment> \<open>\<open>a ?? b\<close> with a defined right-hand side\<close>
  "js_coalesce a b = (case a of None \<Rightarrow> b | Some JNull \<Rightarrow> b | Some v \<Rightarrow> v)"

text \<open>
  The property names the program reads are own properties of parsed JSON or absent: none
  of them is inherited from the prototype of an object, an array, a string, a number or a
  boolean, except \<open>length\<close>.
\<close>

fun property :: "json \<Rightarrow> string \<Rightarrow> json option" where
  \<comment> \<open>\<open>v.k\<close> on a value that is neither \<open>null\<close> nor \<open>undefined\<close>: an own property of an
      object, the length of an array or of a string, otherwise \<open>undefined\<close>\<close>
  "property (JObj kvs) k = map_of kvs k"
| "property (JArr xs) k = (if k = ''length'' then Some (JNum (Fin (of_nat (length xs)))) else None)"
| "property (JStr s) k = (if k = ''length'' then Some (JNum (Fin (of_nat (length s)))) else None)"
| "property _ k = None"

definition chain :: "json option \<Rightarrow> string \<Rightarrow> json option" where
  \<comment> \<open>\<open>v?.k\<close>\<close>
  "chain v k = (case v of None \<Rightarrow> None | Some JNull \<Rightarrow> None | Some x \<Rightarrow> property x k)"

definition access :: "json option \<Rightarrow> string \<Rightarrow> exn + json option" where
  \<comment> \<open>\<open>v.k\<close>: a TypeError on \<open>null\<close> and \<open>undefined\<close>\<close>
  "access v k = (case v of None \<Rightarrow> Inl TypeError | Some JNull \<Rightarrow> Inl TypeError | Some x \<Rightarrow> Inr (property x k))"

subsection \<open>Strings\<close>

definition is_space :: "char \<Rightarrow> bool" where
  \<comment> \<open>white space and line terminators among the code units below 256\<close>
  "is_space c = (of_char c \<in> {9, 10, 11, 12, 13, 32, 160 :: nat})"

definition trim :: "string \<Rightarrow> string" where
  "trim s = rev (dropWhile is_space (rev (dropWhile is_space s)))"

definition lower_char :: "char \<Rightarrow> char" where
  "lower_char c =
     (let n = of_char c :: nat
      in if (65 \<le> n \<and> n \<le> 90) \<or> (192 \<le> n \<and> n \<le> 222 \<and> n \<noteq> 215) then char_of (n + 32) else c)"

definition toLowerCase :: "string \<Rightarrow> string" where
  "toLowerCase s = map lower_char s"

definition startsWith :: "string \<Rightarrow> string \<Rightarrow> bool" where
  "startsWith s p = (take (length p) s = p)"

definition endsWith :: "string \<Rightarrow> string \<Rightarrow> bool" where
  "endsWith s p = (length p \<le> length s \<and> drop (length s - length p) s = p)"

fun str_includes :: "string \<Rightarrow> string \<Rightarrow> bool" where
  "str_includes [] p = (p = [])"
| "str_includes (c # cs) p = (startsWith (c # cs) p \<or> str_includes cs p)"

definition unreserved :: "char \<Rightarrow> bool" where
  "unreserved c =
     (let n = of_char c :: nat
      in (65 \<le> n \<and> n \<le> 90) \<or> (97 \<le> n \<and> n \<le> 122) \<or> (48 \<le> n \<and> n \<le> 57)
         \<or> c \<in> set ''-_.!~*'()'')"

definition hex_digit :: "nat \<Rightarrow> char" where
  "hex_digit n = ''0123456789ABCDEF'' ! (n mod 16)"

definition percent :: "nat \<Rightarrow> string" where
  "percent b = [CHR ''%'', hex_digit (b div 16), hex_digit b]"

definition utf8 :: "char \<Rightarrow> nat list" where
  "utf8 c = (let n = of_char c :: nat in if n < 128 then [n] else [192 + n div 64, 128 + n mod 64])"

definition encodeURIComponent :: "string \<Rightarrow> string" where
  "encodeURIComponent s = concat (map (\<lambda>c. if unreserved c then [c] else concat (map percent (utf8 c))) s)"

subsection \<open>\<open>String(v)\<close> and \<open>Number(v)\<close>\<close>

text \<open>
  Both conversions bring an object to a primitive first. A parsed object with an own
  property \<open>toString\<close>, which is never a function, has no primitive and the conversion
  throws a TypeError; any other parsed object reads \<open>[object Object]\<close>. An array is
  joined with commas, each element converted in turn and \<open>null\<close> reading as the empty
  text, so it throws when an element does.
\<close>

fun unprintable :: "json \<Rightarrow> bool" where
  "unprintable (JObj kvs) = (map_of kvs ''toString'' \<noteq> None)"
| "unprintable (JArr xs) = list_ex unprintable xs"
| "unprintable v = False"

fun join_comma :: "string list \<Rightarrow> string" where
  "join_comma [] = []"
| "join_comma [s] = s"
| "join_comma (s # t # ss) = s @ '','' @ join_comma (t # ss)"

fun text_of :: "ecma \<Rightarrow> json \<Rightarrow> string" where
  \<comment> \<open>the text of a value that has one\<close>
  "text_of E JNull = ''null''"
| "text_of E (JBool b) = (if b then ''true'' else ''false'')"
| "text_of E (JNum n) = NumberToString E n"
| "text_of E (JStr s) = s"
| "text_of E (JArr xs) = join_comma (map (\<lambda>x. if x = JNull then [] else text_of E x) xs)"
| "text_of E (JObj kvs) = ''[object Object]''"

definition js_String :: "ecma \<Rightarrow> json \<Rightarrow> exn + string" where
  "js_String E v = (if unprintable v then Inl TypeError else Inr (text_of E v))"

definition opt_String :: "ecma \<Rightarrow> json option \<Rightarrow> exn + string" where
  "opt_String E v = (case v of None \<Rightarrow> Inr ''undefined'' | Some x \<Rightarrow> js_String E x)"

fun number_of :: "ecma \<Rightarrow> json \<Rightarrow> jsnum" where
  \<comment> \<open>the number of a value that has a primitive\<close>
  "number_of E JNull = Fin 0"
| "number_of E (JBool b) = (if b then Fin 1 else Fin 0)"
| "number_of E (JNum n) = n"
| "number_of E (JStr s) = StringToNumber E s"
| "number_of E v = StringToNumber E (text_of E v)"

definition js_Number :: "ecma \<Rightarrow> json \<Rightarrow> exn + jsnum" where
  "js_Number E v = (if unprintable v then Inl TypeError else Inr (number_of E v))"

definition opt_Number :: "ecma \<Rightarrow> json option \<Rightarrow> exn + jsnum" where
  "opt_Number E v = (case v of None \<Rightarrow> Inr NaN | Some x \<Rightarrow> js_Number E x)"

subsection \<open>Arithmetic of doubles\<close>

text \<open>
  A quotient or a product is the exact one rounded to the nearest double, a tie going to
  the even significand: 53 binary digits, the exponent of the last digit between -1074
  and 971, and an infinity from \<open>2 ^ 1024\<close> on.
\<close>

fun bits :: "nat \<Rightarrow> nat" where
  \<comment> \<open>the number of binary digits\<close>
  "bits n = (if n = 0 then 0 else Suc (bits (n div 2)))"

declare bits.simps [simp del]

definition pow2 :: "int \<Rightarrow> rat" where
  "pow2 k = (if 0 \<le> k then 2 ^ nat k else 1 / 2 ^ nat (- k))"

definition floor_log2 :: "rat \<Rightarrow> int" where
  \<comment> \<open>of a positive rational\<close>
  "floor_log2 r =
     (if 1 \<le> r then int (bits (nat \<lfloor>r\<rfloor>)) - 1 else - int (bits (nat (\<lceil>1 / r\<rceil> - 1))))"

definition round_even :: "rat \<Rightarrow> int" where
  "round_even x =
     (let f = \<lfloor>x\<rfloor>; d = x - of_int f
      in if d < 1 / 2 then f else if 1 / 2 < d then f + 1 else if even f then f else f + 1)"

definition to_double :: "rat \<Rightarrow> jsnum" where
  \<comment> \<open>with 53 digits \<open>m\<close> at the exponent \<open>e\<close>, the value \<open>m * 2 ^ e\<close> reaches \<open>2 ^ 1024\<close> when
      \<open>e\<close> is above 971, or is 971 and \<open>m\<close> was rounded up to \<open>2 ^ 53\<close>\<close>
  "to_double r =
     (if r = 0 then Fin 0
      else let e = max (- 1074) (floor_log2 \<bar>r\<bar> - 52);
               m = round_even (\<bar>r\<bar> / pow2 e)
           in if 971 < e \<or> (e = 971 \<and> 2 ^ 53 \<le> m) then (if 0 < r then PInf else NInf)
              else Fin (sgn r * (of_int m * pow2 e)))"

fun isFinite :: "jsnum \<Rightarrow> bool" where
  "isFinite (Fin r) = True"
| "isFinite _ = False"

fun num_pos :: "jsnum \<Rightarrow> bool" where
  \<comment> \<open>\<open>n > 0\<close>\<close>
  "num_pos (Fin r) = (0 < r)"
| "num_pos PInf = True"
| "num_pos _ = False"

fun num_le0 :: "jsnum \<Rightarrow> bool" where
  \<comment> \<open>\<open>n <= 0\<close>\<close>
  "num_le0 (Fin r) = (r \<le> 0)"
| "num_le0 NInf = True"
| "num_le0 _ = False"

fun num_div :: "jsnum \<Rightarrow> jsnum \<Rightarrow> jsnum" where
  \<comment> \<open>\<open>a / b\<close>\<close>
  "num_div NaN b = NaN"
| "num_div a NaN = NaN"
| "num_div (Fin a) (Fin b) =
     (if b \<noteq> 0 then to_double (a / b) else if a = 0 then NaN else if 0 < a then PInf else NInf)"
| "num_div (Fin a) b = Fin 0"
| "num_div a (Fin b) = (if (a = PInf) = (0 \<le> b) then PInf else NInf)"
| "num_div a b = NaN"

fun num_mul :: "jsnum \<Rightarrow> jsnum \<Rightarrow> jsnum" where
  \<comment> \<open>\<open>a * b\<close>\<close>
  "num_mul NaN b = NaN"
| "num_mul a NaN = NaN"
| "num_mul (Fin a) (Fin b) = to_double (a * b)"
| "num_mul (Fin a) b = (if a = 0 then NaN else if (0 < a) = (b = PInf) then PInf else NInf)"
| "num_mul a (Fin b) = (if b = 0 then NaN else if (0 < b) = (a = PInf) then PInf else NInf)"
| "num_mul a b = (if a = b then PInf else NInf)"

section \<open>The session store and the upstream platform\<close>

text \<open>
  A session record as line 13 of \<open>server/index.mjs\<close> lists it. The anonymous session of
  the secondary domain has a domain and a language preference only, so every field may
  be absent.
\<close>

record session =
  domain :: "string option"
  cookie :: "string option"
  csrftoken :: "string option"
  user :: "json option"
  acceptLanguage :: "string option"

type_synonym sid = string
type_synonym sessions = "sid \<rightharpoonup> session"

text \<open>The six GraphQL documents of the source, by name; their text is not reproduced.\<close>

datatype query =
    QUERY_USER_COM | QUERY_USER_CN
  | QUERY_QUESTION | QUERY_QUESTION_TITLECN
  | QUERY_PROBLEMSET_LIST | QUERY_PROBLEMSET_LIST_TITLECN

text \<open>
  A request body is the object handed to \<open>JSON.stringify\<close>. The headers a caller supplies
  are the properties of an object literal: names, which the call sites write in lower
  case, and values.
\<close>

datatype payload = NoBody | GraphqlBody query json | JsonBody json

type_synonym headers = "(string \<times> string) list"

record init =
  http_method :: string
  headers :: headers
  body :: payload

record request =
  url :: string
  init :: init

text \<open>
  What \<open>fetch\<close> gives: it rejects, or resolves to a response with a status and a body.
  Reading the body may reject too; a body that is read is its text together with what
  \<open>JSON.parse\<close> makes of that text (\<open>None\<close> when it throws).
\<close>

datatype content = Unreadable | Text string "json option"

record response =
  status :: nat
  content :: content

datatype fetched = Rejects | Resolves response

text \<open>
  The platform answers a request knowing the requests made before it. Every call of
  \<open>fetch\<close> is appended to the list of calls, so that a theorem can say which calls were made.
\<close>

type_synonym upstream = "request list \<Rightarrow> request \<Rightarrow> fetched"

type_synonym 'a io = "request list \<Rightarrow> (exn + 'a) \<times> request list"

definition fetch :: "upstream \<Rightarrow> request \<Rightarrow> response io" where
  "fetch net rq calls =
     (case net calls rq of Rejects \<Rightarrow> Inl FetchRejected | Resolves r \<Rightarrow> Inr r, calls @ [rq])"

definition ok :: "response \<Rightarrow> bool" where
  "ok r = (200 \<le> status r \<and> status r \<le> 299)"

subsection \<open>The \<open>Headers\<close> class\<close>

text \<open>
  \<open>set\<close> strips the tabs, line feeds, carriage returns and spaces around a value, and
  throws a TypeError when what is left holds a NUL, a line feed or a carriage return. (It
  also throws on a code unit above 255, which the text of the model does not have, and
  on a name that is not a token, which no call site writes.) The constructor takes the
  properties of the caller's object one by one in the same way; the names of an object
  are distinct, a repeated name in the list standing for a property written twice, where
  the later value replaces the earlier.
\<close>

definition http_space :: "char \<Rightarrow> bool" where
  "http_space c = (of_char c \<in> {9, 10, 13, 32 :: nat})"

definition normalize_value :: "string \<Rightarrow> string" where
  "normalize_value v = rev (dropWhile http_space (rev (dropWhile http_space v)))"

definition valid_value :: "string \<Rightarrow> bool" where
  "valid_value v = list_all (\<lambda>c. of_char c \<notin> {0, 10, 13 :: nat}) v"

definition has :: "headers \<Rightarrow> string \<Rightarrow> bool" where
  "has h k = (map_of h k \<noteq> None)"

definition hset :: "headers \<Rightarrow> string \<Rightarrow> string \<Rightarrow> exn + headers" where
  "hset h k v =
     (if valid_value (normalize_value v) then Inr (AList.update k (normalize_value v) h)
      else Inl TypeError)"

fun fill :: "headers \<Rightarrow> headers \<Rightarrow> exn + headers" where
  "fill h [] = Inr h"
| "fill h ((k, v) # kvs) = (case hset h k v of Inl e \<Rightarrow> Inl e | Inr h' \<Rightarrow> fill h' kvs)"

definition new_Headers :: "headers \<Rightarrow> exn + headers" where
  \<comment> \<open>\<open>new Headers(init.headers || {})\<close>\<close>
  "new_Headers kvs = fill [] kvs"

subsection \<open>\<open>lcFetch\<close>\<close>

definition str_truthy :: "string option \<Rightarrow> bool" where
  "str_truthy s = (s \<noteq> None \<and> s \<noteq> Some [])"

definition domain_of :: "session option \<Rightarrow> string" where
  \<comment> \<open>\<open>session?.domain || 'leetcode.com'\<close>\<close>
  "domain_of s =
     (let d = Option.bind s domain in if str_truthy d then the d else ''leetcode.com'')"

definition and_then :: "exn + 'a \<Rightarrow> ('a \<Rightarrow> exn + 'b) \<Rightarrow> exn + 'b" where
  \<comment> \<open>one statement after another: an exception ends the sequence\<close>
  "and_then r f = (case r of Inl e \<Rightarrow> Inl e | Inr x \<Rightarrow> f x)"

definition set_cred :: "string \<Rightarrow> string option \<Rightarrow> headers \<Rightarrow> exn + headers" where
  \<comment> \<open>\<open>if (session?.x) headers.set(k, session.x)\<close>\<close>
  "set_cred k v h = (if str_truthy v then hset h k (the v) else Inr h)"

definition set_absent :: "string \<Rightarrow> string \<Rightarrow> headers \<Rightarrow> exn + headers" where
  \<comment> \<open>\<open>if (!headers.has(k)) headers.set(k, v)\<close>\<close>
  "set_absent k v h = (if \<not> has h k then hset h k v else Inr h)"

definition set_language :: "string option \<Rightarrow> headers \<Rightarrow> exn + headers" where
  \<comment> \<open>lines 64 to 66\<close>
  "set_language v h =
     (if str_truthy v \<and> \<not> has h ''accept-language'' then hset h ''accept-language'' (the v) else Inr h)"

definition lcFetch_headers :: "session option \<Rightarrow> headers \<Rightarrow> exn + headers" where
  \<comment> \<open>lines 61 to 68\<close>
  "lcFetch_headers s kvs =
     and_then (new_Headers kvs) (\<lambda>h0.
     and_then (set_cred ''cookie'' (Option.bind s cookie) h0) (\<lambda>h1.
     and_then (set_cred ''x-csrftoken'' (Option.bind s csrftoken) h1) (\<lambda>h2.
     and_then (set_language (Option.bind s acceptLanguage) h2) (\<lambda>h3.
     and_then (set_absent ''referer'' (''https://'' @ domain_of s @ ''/'') h3) (\<lambda>h4.
     set_absent ''origin'' (''https://'' @ domain_of s) h4)))))"

definition lcFetch_request :: "session option \<Rightarrow> string \<Rightarrow> init \<Rightarrow> exn + request" where
  \<comment> \<open>the request handed to \<open>fetch\<close>, when the headers can be built\<close>
  "lcFetch_request s path i =
     and_then (lcFetch_headers s (headers i)) (\<lambda>h.
       Inr \<lparr>url = (if startsWith path ''http'' then path else ''https://'' @ domain_of s @ path),
            init = i\<lparr>headers := h\<rparr>\<rparr>)"

definition header :: "request \<Rightarrow> string \<Rightarrow> string option" where
  \<comment> \<open>the value a request carries under a header name\<close>
  "header rq k = map_of (headers (init rq)) k"

definition lcFetch :: "upstream \<Rightarrow> session option \<Rightarrow> string \<Rightarrow> init \<Rightarrow> response io" where
  "lcFetch net s path i calls =
     (case lcFetch_request s path i of
        Inl e \<Rightarrow> (Inl e, calls)
      | Inr rq \<Rightarrow> fetch net rq calls)"

subsection \<open>The request helpers\<close>

text \<open>
  The helpers return their failures as values: \<open>{ok: false, status, error, raw}\<close>, where
  \<open>raw\<close> is the parsed body or, when there is none, the text.
\<close>

datatype raw = RawText string | RawJson json

datatype 'a result = Failure nat string raw | Success nat 'a

fun is_ok :: "'a result \<Rightarrow> bool" where
  "is_ok (Success st x) = True"
| "is_ok (Failure st e r) = False"

definition graphql_result :: "response \<Rightarrow> exn + json option result" where
  \<comment> \<open>lines 310 to 326: \<open>json.errors\<close> throws when the body is the JSON \<open>null\<close>\<close>
  "graphql_result resp =
     (case content resp of
        Unreadable \<Rightarrow> Inl BodyRejected
      | Text text None \<Rightarrow> Inr (Failure (status resp) ''INVALID_JSON'' (RawText text))
      | Text text (Some json) \<Rightarrow>
          if \<not> ok resp then Inr (Failure (status resp) ''HTTP_ERROR'' (RawJson json))
          else (case access (Some json) ''errors'' of
                  Inl e \<Rightarrow> Inl e
                | Inr errors \<Rightarrow>
                    if truthy (chain errors ''length'')
                    then Inr (Failure 200 ''GRAPHQL_ERROR'' (RawJson json))
                    else Inr (Success 200 (property json ''data''))))"

definition graphql_init :: "query \<Rightarrow> json \<Rightarrow> init" where
  "graphql_init q variables =
     \<lparr>http_method = ''POST'', headers = [(''content-type'', ''application/json'')],
      body = GraphqlBody q variables\<rparr>"

definition lcGraphql :: "upstream \<Rightarrow> session option \<Rightarrow> query \<Rightarrow> json \<Rightarrow> json option result io" where
  "lcGraphql net s q variables calls =
     (case lcFetch net s ''/graphql/'' (graphql_init q variables) calls of
        (Inl e, calls') \<Rightarrow> (Inl e, calls')
      | (Inr resp, calls') \<Rightarrow> (graphql_result resp, calls'))"

definition lcProblemsetQuestionList :: "upstream \<Rightarrow> session option \<Rightarrow> json \<Rightarrow> json option result io" where
  "lcProblemsetQuestionList net s variables calls =
     (case lcGraphql net s QUERY_PROBLEMSET_LIST variables calls of
        (Inl e, calls1) \<Rightarrow> (Inl e, calls1)
      | (Inr first, calls1) \<Rightarrow>
          if is_ok first then (Inr first, calls1)
          else (case lcGraphql net s QUERY_PROBLEMSET_LIST_TITLECN variables calls1 of
                  (Inl e, calls2) \<Rightarrow> (Inl e, calls2)
                | (Inr second, calls2) \<Rightarrow>
                    if is_ok second then (Inr second, calls2) else (Inr first, calls2)))"

definition lcQuestion :: "upstream \<Rightarrow> session option \<Rightarrow> string \<Rightarrow> json option result io" where
  "lcQuestion net s titleSlug calls =
     (let variables = JObj [(''titleSlug'', JStr titleSlug)]
      in case lcGraphql net s QUERY_QUESTION variables calls of
           (Inl e, calls1) \<Rightarrow> (Inl e, calls1)
         | (Inr first, calls1) \<Rightarrow>
             if is_ok first then (Inr first, calls1)
             else (case lcGraphql net s QUERY_QUESTION_TITLECN variables calls1 of
                     (Inl e, calls2) \<Rightarrow> (Inl e, calls2)
                   | (Inr second, calls2) \<Rightarrow>
                       if is_ok second then (Inr second, calls2) else (Inr first, calls2)))"

definition rawText_of :: "content \<Rightarrow> string" where
  \<comment> \<open>\<open>await resp.text().catch(() => '')\<close>\<close>
  "rawText_of c = (case c of Unreadable \<Rightarrow> [] | Text t j \<Rightarrow> t)"

definition json_of :: "content \<Rightarrow> json" where
  \<comment> \<open>\<open>rawText ? JSON.parse(rawText) : null\<close>, and \<open>null\<close> when parsing throws\<close>
  "json_of c =
     (case c of
        Unreadable \<Rightarrow> JNull
      | Text t j \<Rightarrow> if t = [] then JNull else (case j of None \<Rightarrow> JNull | Some v \<Rightarrow> v))"

definition raw_of :: "content \<Rightarrow> raw" where
  \<comment> \<open>\<open>json ?? rawText\<close>\<close>
  "raw_of c = (if json_of c = JNull then RawText (rawText_of c) else RawJson (json_of c))"

definition coalesce :: "json option \<Rightarrow> json option \<Rightarrow> json option" where
  \<comment> \<open>\<open>a ?? b\<close>\<close>
  "coalesce a b = (if nullish a then b else a)"

definition submit_result :: "ecma \<Rightarrow> response \<Rightarrow> exn + jsnum result" where
  \<comment> \<open>lines 88 to 105; \<open>Number(submissionId)\<close> may throw\<close>
  "submit_result E resp =
     (let json = json_of (content resp)
      in if \<not> ok resp then Inr (Failure (status resp) ''HTTP_ERROR'' (raw_of (content resp)))
         else let submissionId = coalesce (chain (Some json) ''submission_id'') (chain (Some json) ''submissionId'')
              in if \<not> truthy submissionId
                 then Inr (Failure (status resp) ''NO_SUBMISSION_ID'' (raw_of (content resp)))
                 else and_then (opt_Number E submissionId) (\<lambda>n. Inr (Success (status resp) n)))"

definition submit_init :: "session option \<Rightarrow> string \<Rightarrow> json option \<Rightarrow> string \<Rightarrow> string \<Rightarrow> init" where
  "submit_init s titleSlug questionId lang typedCode =
     \<lparr>http_method = ''POST'',
      headers = [(''content-type'', ''application/json''),
                 (''x-requested-with'', ''XMLHttpRequest''),
                 (''referer'', ''https://'' @ domain_of s @ ''/problems/'' @ encodeURIComponent titleSlug @ ''/'')],
      body = JsonBody (JObj ([(''lang'', JStr lang)]
               @ (case questionId of None \<Rightarrow> [] | Some v \<Rightarrow> [(''question_id'', v)])
               @ [(''typed_code'', JStr typedCode)]))\<rparr>"

definition lcSubmit :: "ecma \<Rightarrow> upstream \<Rightarrow> session option \<Rightarrow> string \<Rightarrow> json option \<Rightarrow> string \<Rightarrow> string \<Rightarrow> jsnum result io" where
  "lcSubmit E net s titleSlug questionId lang typedCode calls =
     (case lcFetch net s (''/problems/'' @ encodeURIComponent titleSlug @ ''/submit/'')
             (submit_init s titleSlug questionId lang typedCode) calls of
        (Inl e, calls') \<Rightarrow> (Inl e, calls')
      | (Inr resp, calls') \<Rightarrow> (submit_result E resp, calls'))"

definition check_result :: "response \<Rightarrow> json result" where
  "check_result resp =
     (if \<not> ok resp then Failure (status resp) ''HTTP_ERROR'' (raw_of (content resp))
      else Success (status resp) (json_of (content resp)))"

definition check_init :: "ecma \<Rightarrow> session option \<Rightarrow> jsnum \<Rightarrow> string option \<Rightarrow> init" where
  "check_init E s submissionId titleSlug =
     \<lparr>http_method = ''GET'',
      headers = [(''x-requested-with'', ''XMLHttpRequest''),
                 (''referer'',
                  if str_truthy titleSlug
                  then ''https://'' @ domain_of s @ ''/problems/'' @ encodeURIComponent (the titleSlug) @ ''/submissions/''
                  else ''https://'' @ domain_of s @ ''/submissions/detail/''
                       @ encodeURIComponent (NumberToString E submissionId) @ ''/'')],
      body = NoBody\<rparr>"

definition lcSubmissionCheck :: "ecma \<Rightarrow> upstream \<Rightarrow> session option \<Rightarrow> jsnum \<Rightarrow> string option \<Rightarrow> json result io" where
  "lcSubmissionCheck E net s submissionId titleSlug calls =
     (case lcFetch net s (''/submissions/detail/'' @ encodeURIComponent (NumberToString E submissionId) @ ''/check/'')
             (check_init E s submissionId titleSlug) calls of
        (Inl e, calls') \<Rightarrow> (Inl e, calls')
      | (Inr resp, calls') \<Rightarrow> (Inr (check_result resp), calls'))"

section \<open>The endpoints\<close>

text \<open>
  What a handler reads of the browser's request, and what it answers: the status, the
  object handed to \<open>res.json\<close> and the changes to the \<open>lc_sid\<close> cookie. The two
  explanatory \<open>message\<close> texts of the sign-in errors are fixed strings outside the
  character range of the model and are left out of the answers. A handler takes the
  session store and the calls made so far and returns both with its outcome; an
  exception that leaves it is the outcome \<open>Inl\<close>, and what the framework then sends
  is not modelled.
\<close>

record http_request =
  lc_sid :: "string option"
  req_body :: "json option"
  req_query :: json
  slug_param :: string
  id_param :: string

datatype cookie_op = ClearCookie | SetCookie sid

record reply =
  code :: nat
  sent :: json
  cookies :: "cookie_op list"

definition respond :: "nat \<Rightarrow> (string \<times> json) list \<Rightarrow> reply" where
  "respond c kvs = \<lparr>code = c, sent = JObj kvs, cookies = []\<rparr>"

type_synonym 'a handler = "sessions \<Rightarrow> request list \<Rightarrow> (exn + 'a) \<times> sessions \<times> request list"

fun raw_json :: "raw \<Rightarrow> json" where
  "raw_json (RawText t) = JStr t"
| "raw_json (RawJson j) = j"

definition failure_json :: "nat \<Rightarrow> string \<Rightarrow> raw \<Rightarrow> json" where
  \<comment> \<open>the failure object itself, as \<open>detail\<close> carries it\<close>
  "failure_json st e r =
     JObj [(''ok'', JBool False), (''status'', JNum (Fin (of_nat st))), (''error'', JStr e), (''raw'', raw_json r)]"

subsection \<open>The session store\<close>

definition getSession :: "http_request \<Rightarrow> sessions \<Rightarrow> session option" where
  "getSession req st = (if str_truthy (lc_sid req) then st (the (lc_sid req)) else None)"

definition clearSession :: "http_request \<Rightarrow> sessions \<Rightarrow> sessions" where
  \<comment> \<open>the store after \<open>clearSession\<close>; the answer gets \<open>ClearCookie\<close>\<close>
  "clearSession req st = (if str_truthy (lc_sid req) then st(the (lc_sid req) := None) else st)"

definition setSession :: "sid \<Rightarrow> session \<Rightarrow> sessions \<Rightarrow> sessions" where
  \<comment> \<open>\<open>uuid\<close> is what \<open>crypto.randomUUID()\<close> returns; the answer gets \<open>SetCookie uuid\<close>\<close>
  "setSession uuid s st = st(uuid \<mapsto> s)"

definition NOT_AUTHENTICATED :: reply where
  \<comment> \<open>what \<open>requireSession\<close> answers when there is no session\<close>
  "NOT_AUTHENTICATED = respond 401 [(''error'', JStr ''NOT_AUTHENTICATED'')]"

subsection \<open>\<open>extractCookieValue\<close>\<close>

text \<open>
  The pattern is \<open>(?:^|;\s*)name=([^;]+)\<close>, case-insensitive. Both names are ASCII, so a
  character of the text matches one of the name when their ASCII upper cases agree.
\<close>

definition canonicalize :: "char \<Rightarrow> char" where
  "canonicalize c = (let n = of_char c :: nat in if 97 \<le> n \<and> n \<le> 122 then char_of (n - 32) else c)"

fun match_name :: "string \<Rightarrow> string \<Rightarrow> string option" where
  \<comment> \<open>the name at the head of the text: what follows it\<close>
  "match_name [] s = Some s"
| "match_name (p # ps) [] = None"
| "match_name (p # ps) (c # cs) =
     (if canonicalize p = canonicalize c then match_name ps cs else None)"

definition match_pair :: "string \<Rightarrow> string \<Rightarrow> string option" where
  \<comment> \<open>\<open>name=([^;]+)\<close> at the head of the text: the group\<close>
  "match_pair name s =
     (case match_name name s of
        None \<Rightarrow> None
      | Some [] \<Rightarrow> None
      | Some (c # r) \<Rightarrow>
          if c = CHR ''='' \<and> takeWhile (\<lambda>x. x \<noteq> CHR '';'') r \<noteq> []
          then Some (takeWhile (\<lambda>x. x \<noteq> CHR '';'') r) else None)"

fun search_pair :: "string \<Rightarrow> string \<Rightarrow> string option" where
  \<comment> \<open>\<open>;\s*name=([^;]+)\<close> at the first semicolon where it matches\<close>
  "search_pair name [] = None"
| "search_pair name (c # cs) =
     (if c = CHR '';''
      then (case match_pair name (dropWhile is_space cs) of
              Some v \<Rightarrow> Some v
            | None \<Rightarrow> search_pair name cs)
      else search_pair name cs)"

definition extractCookieValue :: "string \<Rightarrow> string \<Rightarrow> string option" where
  "extractCookieValue cookieStr name =
     (case match_pair name cookieStr of Some v \<Rightarrow> Some v | None \<Rightarrow> search_pair name cookieStr)"

subsection \<open>\<open>normalizeUser\<close>\<close>

definition isCnDomain :: "string \<Rightarrow> bool" where
  "isCnDomain d = endsWith (toLowerCase d) ''leetcode.cn''"

definition isVerified_of :: "json option \<Rightarrow> json" where
  \<comment> \<open>lines 171 and 172\<close>
  "isVerified_of isVerifiedRaw =
     (case isVerifiedRaw of
        Some (JBool b) \<Rightarrow> JBool b
      | _ \<Rightarrow> if nullish isVerifiedRaw then JNull else JBool (truthy isVerifiedRaw))"

definition normalizeUser :: "string \<Rightarrow> json option \<Rightarrow> json" where
  "normalizeUser d userStatus =
     (if \<not> truthy userStatus then JNull
      else let us = the userStatus;
               isVerified = isVerified_of (property us ''is_verified'')
           in if isCnDomain d
              then JObj [(''id'', JNull),
                         (''name'', js_coalesce (property us ''name'') JNull),
                         (''is_signed_in'', JBool (truthy (property us ''is_signed_in''))),
                         (''is_premium'', JBool (truthy (property us ''is_premium''))),
                         (''is_verified'', isVerified),
                         (''session_id'', JNull),
                         (''slug'', js_coalesce (property us ''slug'') JNull),
                         (''real_name'', js_coalesce (property us ''real_name'') JNull)]
              else JObj [(''id'', js_coalesce (property us ''id'') JNull),
                         (''name'', js_coalesce (property us ''name'') JNull),
                         (''is_signed_in'', JBool (truthy (property us ''is_signed_in''))),
                         (''is_premium'', JBool (truthy (property us ''is_premium''))),
                         (''is_verified'', isVerified),
                         (''session_id'', js_coalesce (property us ''session_id'') JNull)])"

subsection \<open>\<open>POST /api/auth/cookie\<close>\<close>

definition zh_CN :: string where
  "zh_CN = ''zh-CN,zh;q=0.9,en;q=0.8''"

definition body_text :: "ecma \<Rightarrow> http_request \<Rightarrow> string \<Rightarrow> string \<Rightarrow> exn + string" where
  \<comment> \<open>\<open>String(req.body?.k || dflt).trim()\<close>\<close>
  "body_text E req k dflt =
     and_then (opt_String E (js_or (chain (req_body req) k) (Some (JStr dflt)))) (\<lambda>s. Inr (trim s))"

definition emailNotVerified_of :: "json \<Rightarrow> bool" where
  \<comment> \<open>\<open>user?.is_verified === false\<close>\<close>
  "emailNotVerified_of u = (chain (Some u) ''is_verified'' = Some (JBool False))"

definition auth_cookie :: "ecma \<Rightarrow> http_request \<Rightarrow> exn + string" where
  \<comment> \<open>line 343\<close>
  "auth_cookie E req = body_text E req ''cookie'' []"

definition auth_domain :: "ecma \<Rightarrow> http_request \<Rightarrow> exn + string" where
  \<comment> \<open>line 344\<close>
  "auth_domain E req =
     and_then (body_text E req ''domain'' ''leetcode.com'') (\<lambda>d. Inr (if d = [] then ''leetcode.com'' else d))"

definition provisional :: "string \<Rightarrow> string \<Rightarrow> session" where
  \<comment> \<open>lines 360 to 367, from the cookie text and the domain\<close>
  "provisional ck d =
     \<lparr>domain = Some d, cookie = Some ck, csrftoken = extractCookieValue ck ''csrftoken'',
      user = Some JNull, acceptLanguage = Some zh_CN\<rparr>"

definition meQuery :: "string \<Rightarrow> query" where
  "meQuery d = (if isCnDomain d then QUERY_USER_CN else QUERY_USER_COM)"

definition signed_in :: "sid \<Rightarrow> http_request \<Rightarrow> string \<Rightarrow> string \<Rightarrow> json option \<Rightarrow> sessions \<Rightarrow> reply \<times> sessions" where
  \<comment> \<open>lines 375 to 390: \<open>data\<close> is what the user-status query returned\<close>
  "signed_in uuid req ck d data st =
     (let u = normalizeUser d (chain data ''userStatus'')
      in if \<not> truthy (chain (Some u) ''is_signed_in'')
         then (respond 401 [(''error'', JStr ''NOT_SIGNED_IN''), (''user'', u)], st)
         else (\<lparr>code = 200,
                sent = JObj [(''user'', u), (''emailNotVerified'', JBool (emailNotVerified_of u))],
                cookies = [ClearCookie, SetCookie uuid]\<rparr>,
               setSession uuid ((provisional ck d)\<lparr>user := Some u\<rparr>) (clearSession req st)))"

definition sign_in :: "upstream \<Rightarrow> sid \<Rightarrow> http_request \<Rightarrow> string \<Rightarrow> string \<Rightarrow> reply handler" where
  \<comment> \<open>lines 346 to 390, with the cookie text and the domain of lines 343 and 344\<close>
  "sign_in net uuid req ck d st calls =
     (if ck = [] then (Inr (respond 400 [(''error'', JStr ''COOKIE_REQUIRED'')]), st, calls)
      else if \<not> str_truthy (extractCookieValue ck ''csrftoken'')
              \<or> \<not> str_truthy (extractCookieValue ck ''LEETCODE_SESSION'')
      then (Inr (respond 400 [(''error'', JStr ''COOKIE_INVALID'')]), st, calls)
      else case lcGraphql net (Some (provisional ck d)) (meQuery d) (JObj []) calls of
             (Inl e, calls') \<Rightarrow> (Inl e, st, calls')
           | (Inr me, calls') \<Rightarrow>
               (case me of
                  Failure x y z \<Rightarrow>
                    (Inr (respond 401 [(''error'', JStr ''AUTH_FAILED''), (''detail'', failure_json x y z)]),
                     st, calls')
                | Success x data \<Rightarrow>
                    (case signed_in uuid req ck d data st of (r, st') \<Rightarrow> (Inr r, st', calls'))))"

definition post_auth_cookie :: "ecma \<Rightarrow> upstream \<Rightarrow> sid \<Rightarrow> http_request \<Rightarrow> reply handler" where
  \<comment> \<open>both conversions come first, the cookie's and then the domain's\<close>
  "post_auth_cookie E net uuid req st calls =
     (case auth_cookie E req of
        Inl e \<Rightarrow> (Inl e, st, calls)
      | Inr ck \<Rightarrow>
          (case auth_domain E req of
             Inl e \<Rightarrow> (Inl e, st, calls)
           | Inr d \<Rightarrow> sign_in net uuid req ck d st calls))"

subsection \<open>\<open>GET /api/problems\<close>\<close>

text \<open>
  A list item is the object literal the handler builds: its properties in order. A
  property whose value is \<open>undefined\<close> is left out, which no read and no serialisation
  tells apart. A query parameter is what the framework's parser made of the query
  string: a string, or an array or an object of such.
\<close>

type_synonym item = "(string \<times> json) list"

definition obj :: "(string \<times> json option) list \<Rightarrow> item" where
  "obj kvs = List.map_filter (\<lambda>(k, v). map_option (Pair k) v) kvs"

definition or_else :: "json option \<Rightarrow> json \<Rightarrow> json" where
  \<comment> \<open>\<open>a || b\<close> with a defined right-hand side\<close>
  "or_else a b = (if truthy a then the a else b)"

fun traverse :: "('a \<Rightarrow> exn + 'b) \<Rightarrow> 'a list \<Rightarrow> exn + 'b list" where
  \<comment> \<open>\<open>xs.map(f)\<close> where \<open>f\<close> may throw\<close>
  "traverse f [] = Inr []"
| "traverse f (x # xs) =
     (case f x of
        Inl e \<Rightarrow> Inl e
      | Inr y \<Rightarrow> (case traverse f xs of Inl e \<Rightarrow> Inl e | Inr ys \<Rightarrow> Inr (y # ys)))"

fun select :: "('a \<Rightarrow> exn + bool) \<Rightarrow> 'a list \<Rightarrow> exn + 'a list" where
  \<comment> \<open>\<open>xs.filter(f)\<close> where \<open>f\<close> may throw\<close>
  "select f [] = Inr []"
| "select f (x # xs) =
     (case f x of
        Inl e \<Rightarrow> Inl e
      | Inr b \<Rightarrow> (case select f xs of Inl e \<Rightarrow> Inl e | Inr ys \<Rightarrow> Inr (if b then x # ys else ys)))"

definition query_text :: "ecma \<Rightarrow> http_request \<Rightarrow> string \<Rightarrow> string \<Rightarrow> exn + string" where
  \<comment> \<open>\<open>String(req.query.k || dflt).trim()\<close>\<close>
  "query_text E req k dflt =
     and_then (opt_String E (js_or (property (req_query req) k) (Some (JStr dflt)))) (\<lambda>s. Inr (trim s))"

definition wants_zh :: "string \<Rightarrow> bool" where
  "wants_zh lang = (lang = ''zh'' \<or> lang = ''zh-cn'' \<or> lang = ''cn'')"

definition list_query :: "ecma \<Rightarrow> http_request \<Rightarrow> exn + string \<times> string \<times> string" where
  \<comment> \<open>lines 418 to 420: \<open>q\<close>, \<open>category\<close> and \<open>lang\<close>\<close>
  "list_query E req =
     and_then (query_text E req ''q'' []) (\<lambda>q.
     and_then (query_text E req ''category'' ''algorithms'') (\<lambda>c.
     and_then (query_text E req ''lang'' []) (\<lambda>l.
       Inr (toLowerCase q, if c = [] then ''algorithms'' else c, toLowerCase l))))"

definition gql_acRate :: "ecma \<Rightarrow> json option \<Rightarrow> exn + json" where
  \<comment> \<open>line 449\<close>
  "gql_acRate E v =
     (case v of
        Some (JNum n) \<Rightarrow> Inr (JNum n)
      | _ \<Rightarrow> if nullish v then Inr JNull else and_then (opt_Number E v) (\<lambda>n. Inr (JNum n)))"

definition gqlItem :: "ecma \<Rightarrow> json \<Rightarrow> exn + item" where
  \<comment> \<open>lines 438 to 451; \<open>x.id\<close> throws on a \<open>null\<close> element\<close>
  "gqlItem E x =
     (if x = JNull then Inl TypeError
      else and_then (opt_Number E (property x ''id'')) (\<lambda>idNum.
           and_then (js_String E (js_coalesce (property x ''frontendId'') (JStr []))) (\<lambda>frontendId.
           and_then (gql_acRate E (property x ''acRate'')) (\<lambda>acRate.
             Inr [(''id'', JNum (if isFinite idNum then idNum else Fin 0)),
                  (''frontendId'', JStr frontendId),
                  (''title'', js_coalesce (property x ''title'') (JStr [])),
                  (''titleZh'', js_coalesce (property x ''titleZh'') JNull),
                  (''titleSlug'', js_coalesce (property x ''titleSlug'') (JStr [])),
                  (''paidOnly'', JBool (truthy (property x ''paidOnly''))),
                  (''difficulty'', or_else (property x ''difficulty'') (JStr ''Unknown'')),
                  (''status'', or_else (property x ''status'') JNull),
                  (''acRate'', acRate)]))))"

definition rest_acRate :: "ecma \<Rightarrow> json \<Rightarrow> exn + json" where
  \<comment> \<open>lines 512 to 514, from \<open>stat\<close>\<close>
  "rest_acRate E stat =
     and_then (js_Number E (or_else (property stat ''total_acs'') (JNum (Fin 0)))) (\<lambda>totalAcs.
     and_then (js_Number E (or_else (property stat ''total_submitted'') (JNum (Fin 0)))) (\<lambda>totalSubmitted.
       Inr (if num_pos totalSubmitted then JNum (num_mul (num_div totalAcs totalSubmitted) (Fin 100))
            else JNull)))"

definition inherited :: "string list" where
  \<comment> \<open>the functions that an object literal inherits from its prototype\<close>
  "inherited =
     [''constructor'', ''__defineGetter__'', ''__defineSetter__'', ''hasOwnProperty'', ''__lookupGetter__'',
      ''__lookupSetter__'', ''isPrototypeOf'', ''propertyIsEnumerable'', ''toString'', ''valueOf'',
      ''toLocaleString'']"

definition difficulty_of :: "ecma \<Rightarrow> json option \<Rightarrow> exn + json option" where
  \<comment> \<open>\<open>difficultyMap[level] || 'Unknown'\<close>. The level is converted to a property name. Under
      an inherited name the table gives a function, which is truthy and which the answer
      leaves out as it does \<open>undefined\<close>; under \<open>__proto__\<close> it gives the prototype, an object
      with no property to read.\<close>
  "difficulty_of E level =
     and_then (opt_String E level) (\<lambda>k.
       Inr (case map_of [(''1'', JStr ''Easy''), (''2'', JStr ''Medium''), (''3'', JStr ''Hard'')] k of
              Some v \<Rightarrow> Some v
            | None \<Rightarrow>
                if k \<in> set inherited then None
                else if k = ''__proto__'' then Some (JObj [])
                else Some (JStr ''Unknown'')))"

definition stat_of :: "json \<Rightarrow> json" where
  \<comment> \<open>\<open>p.stat || {}\<close>\<close>
  "stat_of p = or_else (property p ''stat'') (JObj [])"

definition restItem :: "ecma \<Rightarrow> json \<Rightarrow> exn + item" where
  \<comment> \<open>lines 509 to 527; \<open>p.stat\<close> throws on a \<open>null\<close> element\<close>
  "restItem E p =
     (if p = JNull then Inl TypeError
      else and_then (rest_acRate E (stat_of p)) (\<lambda>acRate.
           and_then (js_String E (js_coalesce (property (stat_of p) ''frontend_question_id'') (JStr []))) (\<lambda>frontendId.
           and_then (difficulty_of E (chain (property p ''difficulty'') ''level'')) (\<lambda>difficulty.
             Inr (obj [(''id'', property (stat_of p) ''question_id''),
                       (''frontendId'', Some (JStr frontendId)),
                       (''title'', property (stat_of p) ''question__title''),
                       (''titleZh'', Some JNull),
                       (''titleSlug'', property (stat_of p) ''question__title_slug''),
                       (''paidOnly'', Some (JBool (truthy (property p ''paid_only'')))),
                       (''difficulty'', difficulty),
                       (''status'', Some (or_else (property p ''status'') JNull)),
                       (''acRate'', Some acRate)])))))"

definition list_variables :: "string \<Rightarrow> string \<Rightarrow> json" where
  "list_variables category q =
     JObj [(''categorySlug'', if category = ''algorithms'' then JNull else JStr category),
           (''limit'', JNum (Fin 2000)),
           (''skip'', JNum (Fin 0)),
           (''filters'', if q \<noteq> [] then JObj [(''searchKeywords'', JStr q)] else JObj [])]"

definition questions_of :: "json option result \<Rightarrow> json list option" where
  \<comment> \<open>\<open>gql.ok ? gql.data?.problemsetQuestionList?.questions : null\<close>, when it is a non-empty array\<close>
  "questions_of gql =
     (case gql of
        Failure st e r \<Rightarrow> None
      | Success st d \<Rightarrow>
          (case chain (chain d ''problemsetQuestionList'') ''questions'' of
             Some (JArr xs) \<Rightarrow> if xs = [] then None else Some xs
           | _ \<Rightarrow> None))"

definition cnSession :: session where
  "cnSession = \<lparr>domain = Some ''leetcode.cn'', cookie = None, csrftoken = None, user = None,
                acceptLanguage = Some zh_CN\<rparr>"

definition isCom :: "session \<Rightarrow> bool" where
  \<comment> \<open>\<open>String(session.domain || '').toLowerCase().endsWith('leetcode.com')\<close>\<close>
  "isCom s = endsWith (toLowerCase (if str_truthy (domain s) then the (domain s) else [])) ''leetcode.com''"

definition needCnFill :: "session \<Rightarrow> item list \<Rightarrow> bool" where
  "needCnFill s items =
     (isCom s \<and> list_ex (\<lambda>it. \<not> truthy (map_of it ''titleZh'') \<and> truthy (map_of it ''titleSlug'')) items)"

definition cnEntry :: "ecma \<Rightarrow> json \<Rightarrow> exn + string \<times> json" where
  \<comment> \<open>line 475\<close>
  "cnEntry E x =
     and_then (opt_String E (property x ''titleSlug'')) (\<lambda>k. Inr (k, js_coalesce (property x ''titleZh'') JNull))"

definition cnMap_of :: "ecma \<Rightarrow> json list \<Rightarrow> exn + (string \<rightharpoonup> json)" where
  \<comment> \<open>lines 472 to 476: in a \<open>Map\<close> built from pairs a later pair replaces an earlier one\<close>
  "cnMap_of E cnQuestions =
     and_then (traverse (cnEntry E) (filter (\<lambda>x. truthy (chain (Some x) ''titleSlug'')) cnQuestions))
       (\<lambda>kvs. Inr (map_of (rev kvs)))"

definition cnMap_get :: "(string \<rightharpoonup> json) \<Rightarrow> json option \<Rightarrow> json option" where
  \<comment> \<open>the keys are strings, so only a string finds one\<close>
  "cnMap_get m k = (case k of Some (JStr s) \<Rightarrow> m s | _ \<Rightarrow> None)"

definition fillTitleZh :: "(string \<rightharpoonup> json) \<Rightarrow> item \<Rightarrow> item" where
  \<comment> \<open>lines 478 to 482\<close>
  "fillTitleZh cnMap it =
     (if truthy (map_of it ''titleZh'') then it
      else let zh = cnMap_get cnMap (map_of it ''titleSlug'')
           in if truthy zh then AList.update ''titleZh'' (the zh) it else it)"

definition cnFill :: "ecma \<Rightarrow> session \<Rightarrow> item list \<Rightarrow> json option result \<Rightarrow> exn + item list" where
  \<comment> \<open>lines 470 to 483, under the test of line 458: \<open>cnGql\<close> is what the secondary domain answered\<close>
  "cnFill E s items cnGql =
     (if needCnFill s items
      then (case questions_of cnGql of
              None \<Rightarrow> Inr items
            | Some cnQuestions \<Rightarrow>
                and_then (cnMap_of E cnQuestions) (\<lambda>cnMap. Inr (map (fillTitleZh cnMap) items)))
      else Inr items)"

definition gql_list :: "ecma \<Rightarrow> upstream \<Rightarrow> session \<Rightarrow> string \<Rightarrow> string \<Rightarrow> item list option io" where
  \<comment> \<open>lines 428 to 486: \<open>None\<close> when the handler goes on to the REST catalog\<close>
  "gql_list E net s category q calls =
     (case lcProblemsetQuestionList net (Some s) (list_variables category q) calls of
        (Inl e, calls1) \<Rightarrow> (Inl e, calls1)
      | (Inr gql, calls1) \<Rightarrow>
          (case questions_of gql of
             None \<Rightarrow> (Inr None, calls1)
           | Some questions \<Rightarrow>
               (case traverse (gqlItem E) questions of
                  Inl e \<Rightarrow> (Inl e, calls1)
                | Inr items \<Rightarrow>
                    if needCnFill s items
                    then (case lcProblemsetQuestionList net (Some cnSession) (list_variables category q) calls1 of
                            (Inl e, calls2) \<Rightarrow> (Inl e, calls2)
                          | (Inr cnGql, calls2) \<Rightarrow>
                              (case cnFill E s items cnGql of
                                 Inl e \<Rightarrow> (Inl e, calls2)
                               | Inr items' \<Rightarrow> (Inr (Some items'), calls2)))
                    else (Inr (Some items), calls1))))"

definition matches :: "ecma \<Rightarrow> string \<Rightarrow> item \<Rightarrow> exn + bool" where
  \<comment> \<open>lines 530 to 534; the third text is converted only when the first two do not match\<close>
  "matches E q x =
     and_then (opt_String E (js_or (map_of x ''title'') (Some (JStr [])))) (\<lambda>t.
     and_then (opt_String E (js_or (map_of x ''titleSlug'') (Some (JStr [])))) (\<lambda>s.
       if str_includes (toLowerCase t) q \<or> str_includes (toLowerCase s) q then Inr True
       else and_then (opt_String E (map_of x ''frontendId'')) (\<lambda>f. Inr (str_includes f q))))"

definition rest_init :: init where
  \<comment> \<open>line 492\<close>
  "rest_init = \<lparr>http_method = ''GET'', headers = [], body = NoBody\<rparr>"

definition pairs_of :: "json \<Rightarrow> json list" where
  \<comment> \<open>line 501\<close>
  "pairs_of raw = (case chain (Some raw) ''stat_status_pairs'' of Some (JArr ps) \<Rightarrow> ps | _ \<Rightarrow> [])"

definition rest_reply :: "ecma \<Rightarrow> string \<Rightarrow> json \<Rightarrow> exn + reply" where
  \<comment> \<open>lines 501 to 537, from the parsed catalog\<close>
  "rest_reply E q raw =
     and_then (traverse (restItem E) (pairs_of raw)) (\<lambda>items.
     and_then (if q \<noteq> [] then select (matches E q) items else Inr items) (\<lambda>kept.
       Inr (respond 200 [(''items'', JArr (map JObj kept))])))"

definition rest_list :: "ecma \<Rightarrow> upstream \<Rightarrow> session \<Rightarrow> string \<Rightarrow> string \<Rightarrow> reply io" where
  \<comment> \<open>lines 491 to 537\<close>
  "rest_list E net s category q calls =
     (case lcFetch net (Some s) (''/api/problems/'' @ encodeURIComponent category @ ''/'')
             rest_init calls of
        (Inl e, calls1) \<Rightarrow> (Inl e, calls1)
      | (Inr resp, calls1) \<Rightarrow>
          if \<not> ok resp
          then (Inr (respond 502 [(''error'', JStr ''UPSTREAM_ERROR''),
                                  (''status'', JNum (Fin (of_nat (status resp)))),
                                  (''raw'', JStr (rawText_of (content resp)))]), calls1)
          else (case content resp of
                  Unreadable \<Rightarrow> (Inl BodyRejected, calls1)
                | Text t None \<Rightarrow> (Inl SyntaxError, calls1)
                | Text t (Some raw) \<Rightarrow> (rest_reply E q raw, calls1)))"

definition list_problems :: "ecma \<Rightarrow> upstream \<Rightarrow> http_request \<Rightarrow> session \<Rightarrow> string \<Rightarrow> string \<Rightarrow> string
    \<Rightarrow> reply handler" where
  \<comment> \<open>lines 422 to 537, with the session found and the three parameters read\<close>
  "list_problems E net req s0 q category lang st calls =
     (let s = (if wants_zh lang then s0\<lparr>acceptLanguage := Some zh_CN\<rparr> else s0);
          st' = (if wants_zh lang then st(the (lc_sid req) \<mapsto> s) else st)
      in case (if wants_zh lang then gql_list E net s category q calls else (Inr None, calls)) of
           (Inl e, calls1) \<Rightarrow> (Inl e, st', calls1)
         | (Inr (Some items), calls1) \<Rightarrow>
             (Inr (respond 200 [(''items'', JArr (map JObj items))]), st', calls1)
         | (Inr None, calls1) \<Rightarrow>
             (case rest_list E net s category q calls1 of (r, calls2) \<Rightarrow> (r, st', calls2)))"

definition get_problems :: "ecma \<Rightarrow> upstream \<Rightarrow> http_request \<Rightarrow> reply handler" where
  "get_problems E net req st calls =
     (case getSession req st of
        None \<Rightarrow> (Inr NOT_AUTHENTICATED, st, calls)
      | Some s0 \<Rightarrow>
          (case list_query E req of
             Inl e \<Rightarrow> (Inl e, st, calls)
           | Inr (q, category, lang) \<Rightarrow> list_problems E net req s0 q category lang st calls))"

subsection \<open>\<open>GET /api/problem/:slug\<close>\<close>

definition put :: "string \<Rightarrow> json option \<Rightarrow> (string \<times> json) list \<Rightarrow> (string \<times> json) list" where
  \<comment> \<open>the properties of an object after one is set; set to \<open>undefined\<close>, it reads as absent\<close>
  "put k v kvs = (case v of None \<Rightarrow> AList.delete k kvs | Some x \<Rightarrow> AList.update k x kvs)"

definition assign :: "json \<Rightarrow> string \<Rightarrow> json option \<Rightarrow> exn + json" where
  \<comment> \<open>\<open>q.k = v\<close> in a module, which is strict code: a TypeError on a primitive. A named
      property of an array is not part of its JSON.\<close>
  "assign q k v =
     (case q of
        JObj kvs \<Rightarrow> Inr (JObj (put k v kvs))
      | JArr xs \<Rightarrow> Inr (JArr xs)
      | _ \<Rightarrow> Inl TypeError)"

definition missingZh :: "json \<Rightarrow> bool" where
  "missingZh q = (\<not> truthy (property q ''translated_title'') \<and> \<not> truthy (property q ''translated_content''))"

definition fill_question :: "json \<Rightarrow> json \<Rightarrow> exn + json" where
  \<comment> \<open>lines 566 and 567\<close>
  "fill_question q cnQ =
     (case assign q ''translated_title''
             (js_or (property cnQ ''translated_title'')
                (js_or (property cnQ ''title'') (property q ''translated_title''))) of
        Inl e \<Rightarrow> Inl e
      | Inr q1 \<Rightarrow>
          assign q1 ''translated_content''
            (js_or (property cnQ ''translated_content'')
               (js_or (property cnQ ''content'') (property q1 ''translated_content''))))"

definition cnQ_of :: "json option result \<Rightarrow> json option" where
  \<comment> \<open>\<open>cn.ok ? cn.data?.question : null\<close>\<close>
  "cnQ_of cn = (case cn of Failure st e r \<Rightarrow> Some JNull | Success st d \<Rightarrow> chain d ''question'')"

definition localize :: "session \<Rightarrow> json \<Rightarrow> json option result \<Rightarrow> exn + json" where
  \<comment> \<open>lines 564 to 568, under the test of line 558: \<open>cn\<close> is what the secondary domain answered\<close>
  "localize s q cn =
     (if isCom s \<and> missingZh q
      then (if truthy (cnQ_of cn) then fill_question q (the (cnQ_of cn)) else Inr q)
      else Inr q)"

definition get_problem :: "upstream \<Rightarrow> http_request \<Rightarrow> reply handler" where
  "get_problem net req st calls =
     (case getSession req st of
        None \<Rightarrow> (Inr NOT_AUTHENTICATED, st, calls)
      | Some s \<Rightarrow>
          let slug = trim (slug_param req)
          in if slug = [] then (Inr (respond 400 [(''error'', JStr ''SLUG_REQUIRED'')]), st, calls)
             else case lcQuestion net (Some s) slug calls of
                    (Inl e, calls1) \<Rightarrow> (Inl e, st, calls1)
                  | (Inr resp, calls1) \<Rightarrow>
                      (case resp of
                         Failure x y z \<Rightarrow>
                           (Inr (respond 502 [(''error'', JStr ''UPSTREAM_ERROR''), (''detail'', failure_json x y z)]),
                            st, calls1)
                       | Success x d \<Rightarrow>
                           if \<not> truthy (chain d ''question'')
                           then (Inr (respond 404 [(''error'', JStr ''NOT_FOUND'')]), st, calls1)
                           else let q = the (chain d ''question'')
                                in if isCom s \<and> missingZh q
                                   then (case lcQuestion net (Some cnSession) slug calls1 of
                                           (Inl e, calls2) \<Rightarrow> (Inl e, st, calls2)
                                         | (Inr cn, calls2) \<Rightarrow>
                                             (case localize s q cn of
                                                Inl e \<Rightarrow> (Inl e, st, calls2)
                                              | Inr q' \<Rightarrow> (Inr (respond 200 [(''question'', q')]), st, calls2)))
                                   else (Inr (respond 200 [(''question'', q)]), st, calls1)))"

subsection \<open>\<open>GET /api/submission/:id/check\<close>\<close>

definition check_slug :: "ecma \<Rightarrow> http_request \<Rightarrow> exn + string option" where
  \<comment> \<open>line 610: \<open>String(req.query.slug || '').trim() || undefined\<close>\<close>
  "check_slug E req = and_then (query_text E req ''slug'' []) (\<lambda>t. Inr (if t = [] then None else Some t))"

definition get_submission_check :: "ecma \<Rightarrow> upstream \<Rightarrow> http_request \<Rightarrow> reply handler" where
  "get_submission_check E net req st calls =
     (case getSession req st of
        None \<Rightarrow> (Inr NOT_AUTHENTICATED, st, calls)
      | Some s \<Rightarrow>
          let id = StringToNumber E (id_param req)
          in if \<not> isFinite id \<or> num_le0 id
             then (Inr (respond 400 [(''error'', JStr ''INVALID_SUBMISSION_ID'')]), st, calls)
             else case check_slug E req of
                    Inl e \<Rightarrow> (Inl e, st, calls)
                  | Inr titleSlug \<Rightarrow>
                      (case lcSubmissionCheck E net (Some s) id titleSlug calls of
                         (Inl e, calls1) \<Rightarrow> (Inl e, st, calls1)
                       | (Inr check, calls1) \<Rightarrow>
                           (case check of
                              Failure x y z \<Rightarrow>
                                (Inr (respond 502 [(''error'', JStr ''UPSTREAM_ERROR''),
                                                   (''detail'', failure_json x y z)]),
                                 st, calls1)
                            | Success x data \<Rightarrow> (Inr (respond 200 [(''submission'', data)]), st, calls1))))"

section \<open>Notions for the statements\<close>

text \<open>
  The requests the helpers make, and what the theorems read off an outcome.
\<close>

definition graphql_request :: "session option \<Rightarrow> query \<Rightarrow> json \<Rightarrow> exn + request" where
  \<comment> \<open>the request \<open>lcGraphql\<close> makes\<close>
  "graphql_request s q v = lcFetch_request s ''/graphql/'' (graphql_init q v)"

definition submit_request :: "session option \<Rightarrow> string \<Rightarrow> json option \<Rightarrow> string \<Rightarrow> string \<Rightarrow> exn + request" where
  \<comment> \<open>the request \<open>lcSubmit\<close> makes\<close>
  "submit_request s titleSlug questionId lang typedCode =
     lcFetch_request s (''/problems/'' @ encodeURIComponent titleSlug @ ''/submit/'')
       (submit_init s titleSlug questionId lang typedCode)"

definition check_request :: "ecma \<Rightarrow> session option \<Rightarrow> jsnum \<Rightarrow> string option \<Rightarrow> exn + request" where
  \<comment> \<open>the request \<open>lcSubmissionCheck\<close> makes\<close>
  "check_request E s submissionId titleSlug =
     lcFetch_request s (''/submissions/detail/'' @ encodeURIComponent (NumberToString E submissionId) @ ''/check/'')
       (check_init E s submissionId titleSlug)"

definition rest_request :: "session \<Rightarrow> string \<Rightarrow> exn + request" where
  \<comment> \<open>the request for the REST catalog\<close>
  "rest_request s category =
     lcFetch_request (Some s) (''/api/problems/'' @ encodeURIComponent category @ ''/'') rest_init"

definition sendable :: "string \<Rightarrow> bool" where
  \<comment> \<open>a text that \<open>Headers\<close> takes as a value\<close>
  "sendable v = valid_value (normalize_value v)"

definition supplied :: "headers \<Rightarrow> string \<Rightarrow> string option" where
  \<comment> \<open>the value the caller supplied under a name, as \<open>Headers\<close> keeps it\<close>
  "supplied kvs k = map_option normalize_value (map_of (rev kvs) k)"

definition builds :: "session option \<Rightarrow> headers \<Rightarrow> bool" where
  \<comment> \<open>every value that \<open>lcFetch\<close> hands to \<open>Headers\<close> is one it takes\<close>
  "builds s kvs =
     (list_all (\<lambda>kv. sendable (snd kv)) kvs
      \<and> (str_truthy (Option.bind s cookie) \<longrightarrow> sendable (the (Option.bind s cookie)))
      \<and> (str_truthy (Option.bind s csrftoken) \<longrightarrow> sendable (the (Option.bind s csrftoken)))
      \<and> (str_truthy (Option.bind s acceptLanguage) \<and> \<not> has kvs ''accept-language'' \<longrightarrow>
           sendable (the (Option.bind s acceptLanguage)))
      \<and> (\<not> has kvs ''referer'' \<longrightarrow> sendable (''https://'' @ domain_of s @ ''/''))
      \<and> (\<not> has kvs ''origin'' \<longrightarrow> sendable (''https://'' @ domain_of s)))"

definition names_error :: "string \<Rightarrow> exn + 'a result \<Rightarrow> bool" where
  \<comment> \<open>the outcome is a failure value with this error code\<close>
  "names_error c out = (case out of Inr (Failure st e r) \<Rightarrow> e = c | _ \<Rightarrow> False)"

definition carries :: "exn + json \<Rightarrow> item \<Rightarrow> bool" where
  \<comment> \<open>the computation of a rate ended in a value, and the item has it as its acceptance rate\<close>
  "carries r it = (case r of Inl e \<Rightarrow> False | Inr v \<Rightarrow> map_of it ''acRate'' = Some v)"

definition store_after :: "(exn + reply) \<times> sessions \<times> request list \<Rightarrow> sessions" where
  \<comment> \<open>the session store a handler leaves\<close>
  "store_after out = fst (snd out)"

section \<open>Concrete inputs\<close>

text \<open>
  A session as the sign-in stores it, requests of the browser, and platforms that fail,
  cannot be reached, or answer with a fixed body.
\<close>

definition demo_session :: session where
  "demo_session =
     \<lparr>domain = Some ''leetcode.com'', cookie = Some ''csrftoken=abc; LEETCODE_SESSION=xyz'',
      csrftoken = Some ''abc'', user = Some JNull, acceptLanguage = Some zh_CN\<rparr>"

definition both_fail :: upstream where
  \<comment> \<open>answers the first call with 500 and every later one with 502\<close>
  "both_fail calls rq =
     Resolves \<lparr>status = (if calls = [] then 500 else 502), content = Text ''{}'' (Some (JObj []))\<rparr>"

definition first_only :: upstream where
  \<comment> \<open>answers the first call with 200 and cannot be reached after it\<close>
  "first_only calls rq =
     (if calls = [] then Resolves \<lparr>status = 200, content = Text ''{data: 7}'' (Some (JObj [(''data'', JNum (Fin 7))]))\<rparr>
      else Rejects)"

definition second_only :: upstream where
  \<comment> \<open>answers the first call with 500 and every later one with 200\<close>
  "second_only calls rq =
     (if calls = [] then Resolves \<lparr>status = 500, content = Text ''{}'' (Some (JObj []))\<rparr>
      else Resolves \<lparr>status = 200, content = Text ''{data: 7}'' (Some (JObj [(''data'', JNum (Fin 7))]))\<rparr>)"

definition unreachable :: upstream where
  "unreachable calls rq = Rejects"

definition demo_ecma :: ecma where
  \<comment> \<open>the two conversions at the numbers the examples use\<close>
  "demo_ecma =
     \<lparr>StringToNumber = (\<lambda>s. if s = ''1001'' then Fin 1001 else if s = ''1'' then Fin 1 else NaN),
      NumberToString = (\<lambda>n. if n = Fin 1001 then ''1001'' else if n = Fin 1 then ''1'' else ''NaN'')\<rparr>"

definition demo_cookie :: string where
  "demo_cookie = ''csrftoken=abc; LEETCODE_SESSION=xyz''"

definition spaced_cookie :: string where
  \<comment> \<open>a space before the semicolon, which the pattern takes into the token\<close>
  "spaced_cookie = ''csrftoken=abc ; LEETCODE_SESSION=xyz''"

definition broken_cookie :: string where
  \<comment> \<open>a line feed inside the token\<close>
  "broken_cookie = ''csrftoken=a'' @ [CHR 0x0A] @ ''b; LEETCODE_SESSION=xyz''"

definition graphql_sent :: "string \<Rightarrow> string \<Rightarrow> request" where
  \<comment> \<open>the user-status request of a session on the primary domain, with these \<open>cookie\<close> and
      \<open>x-csrftoken\<close> headers\<close>
  "graphql_sent ck token =
     \<lparr>url = ''https://leetcode.com/graphql/'',
      init = \<lparr>http_method = ''POST'',
               headers = [(''content-type'', ''application/json''),
                          (''cookie'', ck),
                          (''x-csrftoken'', token),
                          (''accept-language'', ''zh-CN,zh;q=0.9,en;q=0.8''),
                          (''referer'', ''https://leetcode.com/''),
                          (''origin'', ''https://leetcode.com'')],
               body = GraphqlBody QUERY_USER_COM (JObj [])\<rparr>\<rparr>"

definition anonymous_sent :: "query \<Rightarrow> json \<Rightarrow> request" where
  \<comment> \<open>the request of a query without a session\<close>
  "anonymous_sent q v =
     \<lparr>url = ''https://leetcode.com/graphql/'',
      init = \<lparr>http_method = ''POST'',
               headers = [(''content-type'', ''application/json''),
                          (''referer'', ''https://leetcode.com/''),
                          (''origin'', ''https://leetcode.com'')],
               body = GraphqlBody q v\<rparr>\<rparr>"

definition submit_sent :: request where
  \<comment> \<open>the request that submits \<open>int main(){}\<close> for \<open>two-sum\<close> without a session\<close>
  "submit_sent =
     \<lparr>url = ''https://leetcode.com/problems/two-sum/submit/'',
      init = \<lparr>http_method = ''POST'',
               headers = [(''content-type'', ''application/json''),
                          (''x-requested-with'', ''XMLHttpRequest''),
                          (''referer'', ''https://leetcode.com/problems/two-sum/''),
                          (''origin'', ''https://leetcode.com'')],
               body = JsonBody (JObj [(''lang'', JStr ''cpp''), (''question_id'', JStr ''1''),
                                      (''typed_code'', JStr ''int main(){}'')])\<rparr>\<rparr>"

definition check_sent :: "session option \<Rightarrow> request" where
  \<comment> \<open>the status request for the submission 1001 on the primary domain\<close>
  "check_sent s =
     \<lparr>url = ''https://leetcode.com/submissions/detail/1001/check/'',
      init = \<lparr>http_method = ''GET'',
               headers = [(''x-requested-with'', ''XMLHttpRequest''),
                          (''referer'', ''https://leetcode.com/submissions/detail/1001/'')]
                         @ (case s of None \<Rightarrow> []
                            | Some r \<Rightarrow> [(''cookie'', the (cookie r)), (''x-csrftoken'', the (csrftoken r)),
                                          (''accept-language'', the (acceptLanguage r))])
                         @ [(''origin'', ''https://leetcode.com'')],
               body = NoBody\<rparr>\<rparr>"

definition post_cookie :: "string \<Rightarrow> http_request" where
  \<comment> \<open>a sign-in request with this cookie text and no domain\<close>
  "post_cookie c = \<lparr>lc_sid = None, req_body = Some (JObj [(''cookie'', JStr c)]), req_query = JObj [],
                    slug_param = [], id_param = []\<rparr>"

definition post_domain :: "string \<Rightarrow> json \<Rightarrow> http_request" where
  \<comment> \<open>a sign-in request with this cookie text and this domain\<close>
  "post_domain c d =
     \<lparr>lc_sid = None, req_body = Some (JObj [(''cookie'', JStr c), (''domain'', d)]), req_query = JObj [],
      slug_param = [], id_param = []\<rparr>"

definition answers :: "json \<Rightarrow> upstream" where
  \<comment> \<open>a platform that answers every call with 200 and this JSON\<close>
  "answers j calls rq = Resolves \<lparr>status = 200, content = Text ''{...}'' (Some j)\<rparr>"

definition user_status :: "bool \<Rightarrow> json \<Rightarrow> json" where
  \<comment> \<open>the answer to the user-status query\<close>
  "user_status signedIn verified =
     JObj [(''data'', JObj [(''userStatus'',
       JObj [(''id'', JNum (Fin 7)), (''name'', JStr ''alice''), (''is_signed_in'', JBool signedIn),
             (''is_premium'', JBool False), (''is_verified'', verified), (''session_id'', JNull)])])]"

definition alice :: json where
  "alice = JObj [(''id'', JNum (Fin 7)), (''name'', JStr ''alice''), (''is_signed_in'', JBool True),
                 (''is_premium'', JBool False), (''is_verified'', JBool False), (''session_id'', JNull)]"

definition catalog_pair :: "rat \<Rightarrow> rat \<Rightarrow> json" where
  \<comment> \<open>an entry of the REST catalog with these accepted and submitted counts\<close>
  "catalog_pair a b =
     JObj [(''stat'', JObj [(''question_id'', JNum (Fin 1)), (''question__title'', JStr ''Two Sum''),
                            (''question__title_slug'', JStr ''two-sum''), (''total_acs'', JNum (Fin a)),
                            (''total_submitted'', JNum (Fin b)), (''frontend_question_id'', JNum (Fin 1))]),
           (''difficulty'', JObj [(''level'', JNum (Fin 1))]), (''paid_only'', JBool False)]"

definition catalog_item :: "rat \<Rightarrow> item" where
  \<comment> \<open>the item built from it, with this rate\<close>
  "catalog_item r =
     [(''id'', JNum (Fin 1)), (''frontendId'', JStr ''1''), (''title'', JStr ''Two Sum''), (''titleZh'', JNull),
      (''titleSlug'', JStr ''two-sum''), (''paidOnly'', JBool False), (''difficulty'', JStr ''Easy''),
      (''status'', JNull), (''acRate'', JNum (Fin r))]"

definition demo_items :: "item list" where
  \<comment> \<open>one item with a localized title and one without\<close>
  "demo_items =
     [[(''title'', JStr ''Two Sum''), (''titleZh'', JStr ''zh: two sum''), (''titleSlug'', JStr ''two-sum'')],
      [(''title'', JStr ''Add Two Numbers''), (''titleZh'', JNull), (''titleSlug'', JStr ''add-two-numbers'')]]"

definition demo_cn_list :: "json option result" where
  \<comment> \<open>the secondary domain's catalog, with a title for both\<close>
  "demo_cn_list =
     Success 200 (Some (JObj [(''problemsetQuestionList'', JObj [(''questions'',
       JArr [JObj [(''titleSlug'', JStr ''two-sum''), (''titleZh'', JStr ''zh: other'')],
             JObj [(''titleSlug'', JStr ''add-two-numbers''), (''titleZh'', JStr ''zh: add two'')]])])]))"

definition demo_question :: json where
  "demo_question = JObj [(''title'', JStr ''Two Sum''), (''translated_title'', JNull), (''content'', JStr ''<p>'')]"

definition demo_cn_question :: "json option result" where
  "demo_cn_question =
     Success 200 (Some (JObj [(''question'',
       JObj [(''title'', JStr ''Two Sum''), (''translated_title'', JStr ''zh: two sum''), (''content'', JStr ''<p>zh'')])]))"

definition get_check :: "string \<Rightarrow> http_request" where
  \<comment> \<open>a status request of the session \<open>sid-1\<close> for this id\<close>
  "get_check n = \<lparr>lc_sid = Some ''sid-1'', req_body = None, req_query = JObj [], slug_param = [], id_param = n\<rparr>"

definition get_list :: "string \<Rightarrow> http_request" where
  \<comment> \<open>a catalog request of the session \<open>sid-1\<close> in this language\<close>
  "get_list l = \<lparr>lc_sid = Some ''sid-1'', req_body = None, req_query = JObj [(''lang'', JStr l)],
                  slug_param = [], id_param = []\<rparr>"

definition judged :: json where
  "judged = JObj [(''state'', JStr ''SUCCESS''), (''status_runtime'', JStr ''4 ms''), (''total_correct'', JNum (Fin 63))]"

definition gql_catalog :: json where
  \<comment> \<open>the answer to the GraphQL catalog query: two questions with a localized title\<close>
  "gql_catalog =
     JObj [(''data'', JObj [(''problemsetQuestionList'', JObj [(''questions'',
       JArr [JObj [(''id'', JStr ''1''), (''titleZh'', JStr ''zh: two sum''), (''titleSlug'', JStr ''two-sum''),
                   (''acRate'', JNum (Fin (1 / 2)))],
             JObj [(''id'', JStr ''1''), (''titleZh'', JStr ''zh: add two''), (''titleSlug'', JStr ''add-two-numbers'')]])])])]"

section \<open>The request builder\<close>

lemma and_then_Inr [simp]: "and_then (Inr x) f = f x"
  by (simp add: and_then_def)

lemma and_then_Inl [simp]: "and_then (Inl e) f = Inl e"
  by (simp add: and_then_def)

lemma and_then_eq_Inr: "(and_then r f = Inr y) = (\<exists>x. r = Inr x \<and> f x = Inr y)"
  by (cases r) simp_all

lemma and_then_eq_Inl: "(and_then r f = Inl e) = (r = Inl e \<or> (\<exists>x. r = Inr x \<and> f x = Inl e))"
  by (cases r) simp_all

lemma hset_eq_Inr: "(hset h k v = Inr h') = (sendable v \<and> h' = AList.update k (normalize_value v) h)"
  by (auto simp: hset_def sendable_def)


lemma hset_sendable: "sendable v \<Longrightarrow> hset h k v = Inr (AList.update k (normalize_value v) h)"
  by (simp add: hset_eq_Inr)

lemma fill_Inr:
  "fill h kvs = Inr h' \<Longrightarrow>
     list_all (\<lambda>kv. sendable (snd kv)) kvs
     \<and> map_of h' k = (case supplied kvs k of None \<Rightarrow> map_of h k | Some v \<Rightarrow> Some v)"
proof (induction kvs arbitrary: h)
  case Nil
  then show ?case by (simp add: supplied_def)
next
  case (Cons kv kvs)
  obtain k0 v0 where kv: "kv = (k0, v0)" by (cases kv)
  from Cons.prems obtain h1 where h1: "hset h k0 v0 = Inr h1" and rest: "fill h1 kvs = Inr h'"
    by (auto simp: kv split: sum.splits)
  from h1 have s: "sendable v0" and u: "h1 = AList.update k0 (normalize_value v0) h"
    by (simp_all add: hset_eq_Inr)
  from Cons.IH [OF rest] have a: "list_all (\<lambda>kv. sendable (snd kv)) kvs"
    and b: "map_of h' k = (case supplied kvs k of None \<Rightarrow> map_of h1 k | Some v \<Rightarrow> Some v)"
    by simp_all
  have "map_of h' k = (case supplied (kv # kvs) k of None \<Rightarrow> map_of h k | Some v \<Rightarrow> Some v)"
    unfolding b u kv by (simp add: supplied_def update_conv' map_add_def split: option.splits)
  then show ?case using a s by (simp add: kv)
qed

lemma fill_sendable: "list_all (\<lambda>kv. sendable (snd kv)) kvs \<Longrightarrow> \<exists>h'. fill h kvs = Inr h'"
proof (induction kvs arbitrary: h)
  case Nil
  then show ?case by simp
next
  case (Cons kv kvs)
  obtain k0 v0 where kv: "kv = (k0, v0)" by (cases kv)
  from Cons.prems have s: "sendable v0" and r: "list_all (\<lambda>kv. sendable (snd kv)) kvs"
    by (simp_all add: kv)
  from Cons.IH [OF r] obtain h' where "fill (AList.update k0 (normalize_value v0) h) kvs = Inr h'" by blast
  then show ?case by (simp add: kv hset_sendable [OF s])
qed


lemma supplied_has: "(supplied kvs k \<noteq> None) = has kvs k"
proof -
  have "(map_of (rev kvs) k \<noteq> None) = (map_of kvs k \<noteq> None)"
    by (simp add: map_of_eq_None_iff)
  then show ?thesis by (simp add: supplied_def has_def)
qed

lemma new_Headers_Inr: "new_Headers kvs = Inr h0 \<Longrightarrow> map_of h0 k = supplied kvs k"
  using fill_Inr [of "[]" kvs h0 k] by (simp add: new_Headers_def split: option.splits)

lemma has_new_Headers: "new_Headers kvs = Inr h0 \<Longrightarrow> has h0 k = has kvs k"
  using new_Headers_Inr [of kvs h0 k] supplied_has [of kvs k] by (simp add: has_def)

lemma new_Headers_builds:
  "(\<exists>h0. new_Headers kvs = Inr h0) = list_all (\<lambda>kv. sendable (snd kv)) kvs"
  using fill_Inr [of "[]" kvs] fill_sendable [of kvs "[]"] by (auto simp: new_Headers_def)

lemma set_cred_Inr:
  "set_cred k v h = Inr h' \<Longrightarrow>
     (str_truthy v \<longrightarrow> sendable (the v))
     \<and> map_of h' k' = (if k' = k \<and> str_truthy v then Some (normalize_value (the v)) else map_of h k')"
  by (auto simp: set_cred_def hset_eq_Inr update_conv' split: if_splits)


lemma set_absent_Inr:
  "set_absent k v h = Inr h' \<Longrightarrow>
     (\<not> has h k \<longrightarrow> sendable v)
     \<and> map_of h' k' = (if k' = k \<and> \<not> has h k then Some (normalize_value v) else map_of h k')"
  by (auto simp: set_absent_def hset_eq_Inr update_conv' split: if_splits)


lemma set_language_Inr:
  "set_language v h = Inr h' \<Longrightarrow>
     (str_truthy v \<and> \<not> has h ''accept-language'' \<longrightarrow> sendable (the v))
     \<and> map_of h' k' = (if k' = ''accept-language'' \<and> str_truthy v \<and> \<not> has h ''accept-language''
                        then Some (normalize_value (the v)) else map_of h k')"
  by (auto simp: set_language_def hset_eq_Inr update_conv' split: if_splits)


lemma has_set_cred: "set_cred k v h = Inr h' \<Longrightarrow> has h' k' = ((k' = k \<and> str_truthy v) \<or> has h k')"
  using set_cred_Inr [of k v h h' k'] by (auto simp: has_def)

lemma has_set_language:
  "set_language v h = Inr h' \<Longrightarrow> has h' k' = ((k' = ''accept-language'' \<and> str_truthy v) \<or> has h k')"
  using set_language_Inr [of v h h' k'] by (auto simp: has_def)

lemma has_set_absent: "set_absent k v h = Inr h' \<Longrightarrow> has h' k' = (k' = k \<or> has h k')"
  using set_absent_Inr [of k v h h' k'] by (auto simp: has_def)

lemma lcFetch_headers_steps:
  "(lcFetch_headers s kvs = Inr h) =
     (\<exists>h0 h1 h2 h3 h4.
        new_Headers kvs = Inr h0
        \<and> set_cred ''cookie'' (Option.bind s cookie) h0 = Inr h1
        \<and> set_cred ''x-csrftoken'' (Option.bind s csrftoken) h1 = Inr h2
        \<and> set_language (Option.bind s acceptLanguage) h2 = Inr h3
        \<and> set_absent ''referer'' (''https://'' @ domain_of s @ ''/'') h3 = Inr h4
        \<and> set_absent ''origin'' (''https://'' @ domain_of s) h4 = Inr h)"
  unfolding lcFetch_headers_def and_then_eq_Inr by blast

lemma lcFetch_headers_values:
  assumes "lcFetch_headers s kvs = Inr h"
  shows "map_of h ''cookie'' =
           (if str_truthy (Option.bind s cookie) then Some (normalize_value (the (Option.bind s cookie)))
            else supplied kvs ''cookie'')"
    and "map_of h ''x-csrftoken'' =
           (if str_truthy (Option.bind s csrftoken) then Some (normalize_value (the (Option.bind s csrftoken)))
            else supplied kvs ''x-csrftoken'')"
    and "map_of h ''accept-language'' =
           (if str_truthy (Option.bind s acceptLanguage) \<and> \<not> has kvs ''accept-language''
            then Some (normalize_value (the (Option.bind s acceptLanguage)))
            else supplied kvs ''accept-language'')"
    and "map_of h ''referer'' =
           (if has kvs ''referer'' then supplied kvs ''referer''
            else Some (normalize_value (''https://'' @ domain_of s @ ''/'')))"
    and "map_of h ''origin'' =
           (if has kvs ''origin'' then supplied kvs ''origin''
            else Some (normalize_value (''https://'' @ domain_of s)))"
    and "builds s kvs"
proof -
  from assms obtain h0 h1 h2 h3 h4 where
    0: "new_Headers kvs = Inr h0"
    and 1: "set_cred ''cookie'' (Option.bind s cookie) h0 = Inr h1"
    and 2: "set_cred ''x-csrftoken'' (Option.bind s csrftoken) h1 = Inr h2"
    and 3: "set_language (Option.bind s acceptLanguage) h2 = Inr h3"
    and 4: "set_absent ''referer'' (''https://'' @ domain_of s @ ''/'') h3 = Inr h4"
    and 5: "set_absent ''origin'' (''https://'' @ domain_of s) h4 = Inr h"
    unfolding lcFetch_headers_steps by blast
  note m0 = new_Headers_Inr [OF 0]
  note m1 = set_cred_Inr [OF 1]
  note m2 = set_cred_Inr [OF 2]
  note m3 = set_language_Inr [OF 3]
  note m4 = set_absent_Inr [OF 4]
  note m5 = set_absent_Inr [OF 5]
  have l2: "has h2 ''accept-language'' = has kvs ''accept-language''"
    by (simp add: has_set_cred [OF 2] has_set_cred [OF 1] has_new_Headers [OF 0])
  have r3: "has h3 ''referer'' = has kvs ''referer''"
    by (simp add: has_set_language [OF 3] has_set_cred [OF 2] has_set_cred [OF 1] has_new_Headers [OF 0])
  have o4: "has h4 ''origin'' = has kvs ''origin''"
    by (simp add: has_set_absent [OF 4] has_set_language [OF 3] has_set_cred [OF 2] has_set_cred [OF 1]
          has_new_Headers [OF 0])
  show "map_of h ''cookie'' =
           (if str_truthy (Option.bind s cookie) then Some (normalize_value (the (Option.bind s cookie)))
            else supplied kvs ''cookie'')"
    using m0 [of "''cookie''"] m1 [of "''cookie''"] m2 [of "''cookie''"] m3 [of "''cookie''"] m4 [of "''cookie''"]
          m5 [of "''cookie''"]
    by simp
  show "map_of h ''x-csrftoken'' =
           (if str_truthy (Option.bind s csrftoken) then Some (normalize_value (the (Option.bind s csrftoken)))
            else supplied kvs ''x-csrftoken'')"
    using m0 [of "''x-csrftoken''"] m1 [of "''x-csrftoken''"] m2 [of "''x-csrftoken''"] m3 [of "''x-csrftoken''"]
          m4 [of "''x-csrftoken''"] m5 [of "''x-csrftoken''"]
    by simp
  show "map_of h ''accept-language'' =
           (if str_truthy (Option.bind s acceptLanguage) \<and> \<not> has kvs ''accept-language''
            then Some (normalize_value (the (Option.bind s acceptLanguage)))
            else supplied kvs ''accept-language'')"
    using m0 [of "''accept-language''"] m1 [of "''accept-language''"] m2 [of "''accept-language''"]
          m3 [of "''accept-language''"] m4 [of "''accept-language''"] m5 [of "''accept-language''"] l2
    by simp
  show "map_of h ''referer'' =
           (if has kvs ''referer'' then supplied kvs ''referer''
            else Some (normalize_value (''https://'' @ domain_of s @ ''/'')))"
    using m0 [of "''referer''"] m1 [of "''referer''"] m2 [of "''referer''"] m3 [of "''referer''"]
          m4 [of "''referer''"] m5 [of "''referer''"] r3
    by simp
  show "map_of h ''origin'' =
           (if has kvs ''origin'' then supplied kvs ''origin''
            else Some (normalize_value (''https://'' @ domain_of s)))"
    using m0 [of "''origin''"] m1 [of "''origin''"] m2 [of "''origin''"] m3 [of "''origin''"]
          m4 [of "''origin''"] m5 [of "''origin''"] o4
    by simp
  have "list_all (\<lambda>kv. sendable (snd kv)) kvs"
    using new_Headers_builds [of kvs] 0 by blast
  then show "builds s kvs"
    unfolding builds_def using m1 [of "''cookie''"] m2 [of "''cookie''"] m3 [of "''cookie''"] m4 [of "''cookie''"]
      m5 [of "''cookie''"] l2 r3 o4
    by blast
qed



lemma normalize_value_id:
  "v \<noteq> [] \<Longrightarrow> \<not> http_space (hd v) \<Longrightarrow> \<not> http_space (last v) \<Longrightarrow> normalize_value v = v"
proof -
  assume v: "v \<noteq> []" and h: "\<not> http_space (hd v)" and l: "\<not> http_space (last v)"
  have 1: "dropWhile http_space v = v"
    using v h by (cases v) simp_all
  have "rev v \<noteq> []" "\<not> http_space (hd (rev v))"
    using v l by (simp_all add: hd_rev)
  then have 2: "dropWhile http_space (rev v) = rev v"
    by (cases "rev v") simp_all
  show ?thesis by (simp add: normalize_value_def 1 2)
qed


lemma lcFetch_request_Inr:
  "(lcFetch_request s path i = Inr rq) =
     (\<exists>h. lcFetch_headers s (headers i) = Inr h
          \<and> rq = \<lparr>url = (if startsWith path ''http'' then path else ''https://'' @ domain_of s @ path),
                   init = i\<lparr>headers := h\<rparr>\<rparr>)"
  by (auto simp: lcFetch_request_def and_then_eq_Inr)




lemma lcFetch_built:
  "lcFetch_request s path i = Inr rq \<Longrightarrow> lcFetch net s path i calls = fetch net rq calls"
  by (simp add: lcFetch_def)

lemma domain_of_None: "domain_of None = ''leetcode.com''"
  by (simp add: domain_of_def str_truthy_def)


lemma request_parts:
  assumes "lcFetch_request s path i = Inr rq"
  shows "url rq = (if startsWith path ''http'' then path else ''https://'' @ domain_of s @ path)"
    and "http_method (init rq) = http_method i" and "body (init rq) = body i"
    and "lcFetch_headers s (headers i) = Inr (headers (init rq))"
  using assms by (auto simp: lcFetch_request_Inr)


lemma demo_request:
  "lcFetch_request (Some demo_session) ''/graphql/'' (graphql_init QUERY_USER_COM (JObj [])) =
     Inr (graphql_sent demo_cookie ''abc'')"
  by code_simp

lemma spaced_request:
  "lcFetch_request (Some (provisional spaced_cookie ''leetcode.com'')) ''/graphql/''
     (graphql_init QUERY_USER_COM (JObj [])) = Inr (graphql_sent spaced_cookie ''abc'')"
  by code_simp

lemma broken_request:
  "lcFetch_request (Some (provisional broken_cookie ''leetcode.com'')) ''/graphql/''
     (graphql_init QUERY_USER_COM (JObj [])) = Inl TypeError"
  by code_simp




section \<open>The request helpers: fallback and failures\<close>

lemma lcGraphql_built:
  "graphql_request s q v = Inr rq \<Longrightarrow>
     lcGraphql net s q v calls =
       (case net calls rq of Rejects \<Rightarrow> Inl FetchRejected | Resolves resp \<Rightarrow> graphql_result resp, calls @ [rq])"
  by (simp add: lcGraphql_def lcFetch_def fetch_def graphql_request_def split: fetched.splits)

lemma lcGraphql_unbuilt: "graphql_request s q v = Inl e \<Longrightarrow> lcGraphql net s q v calls = (Inl e, calls)"
  by (simp add: lcGraphql_def lcFetch_def graphql_request_def)

lemma lcGraphql_Inr:
  assumes "lcGraphql net s q v calls = (Inr a, c)"
  shows "\<exists>rq resp. graphql_request s q v = Inr rq \<and> net calls rq = Resolves resp
           \<and> graphql_result resp = Inr a \<and> c = calls @ [rq]"
proof (cases "graphql_request s q v")
  case (Inl e)
  then show ?thesis using assms by (simp add: lcGraphql_unbuilt)
next
  case (Inr rq)
  then show ?thesis using assms by (auto simp: lcGraphql_built split: fetched.splits)
qed

lemma graphql_result_ok:
  "graphql_result resp = Inr r \<Longrightarrow>
     is_ok r = (ok resp \<and> (\<exists>t j. content resp = Text t (Some j) \<and> j \<noteq> JNull
                 \<and> \<not> truthy (chain (property j ''errors'') ''length'')))"
  by (auto simp: graphql_result_def access_def split: content.splits option.splits if_splits sum.splits json.splits)

lemma lcGraphql_ok:
  assumes "graphql_request s q v = Inr rq" and "net calls rq = Resolves resp"
      and "lcGraphql net s q v calls = (Inr a, c)"
  shows "is_ok a = (ok resp \<and> (\<exists>t j. content resp = Text t (Some j) \<and> j \<noteq> JNull
                     \<and> \<not> truthy (chain (property j ''errors'') ''length'')))"
proof -
  have "graphql_result resp = Inr a"
    using assms by (simp add: lcGraphql_built)
  then show ?thesis by (rule graphql_result_ok)
qed

lemma list_first:
  "lcGraphql net s QUERY_PROBLEMSET_LIST v calls = (Inr a, c1) \<Longrightarrow> is_ok a \<Longrightarrow>
     lcProblemsetQuestionList net s v calls = (Inr a, c1)"
  by (simp add: lcProblemsetQuestionList_def)

lemma list_second:
  "lcGraphql net s QUERY_PROBLEMSET_LIST v calls = (Inr a, c1) \<Longrightarrow> \<not> is_ok a \<Longrightarrow>
   lcGraphql net s QUERY_PROBLEMSET_LIST_TITLECN v c1 = (Inr b, c2) \<Longrightarrow>
     lcProblemsetQuestionList net s v calls = (Inr (if is_ok b then b else a), c2)"
  by (simp add: lcProblemsetQuestionList_def)

lemma list_first_thrown:
  "lcGraphql net s QUERY_PROBLEMSET_LIST v calls = (Inl e, c1) \<Longrightarrow>
     lcProblemsetQuestionList net s v calls = (Inl e, c1)"
  by (simp add: lcProblemsetQuestionList_def)

lemma list_second_thrown:
  "lcGraphql net s QUERY_PROBLEMSET_LIST v calls = (Inr a, c1) \<Longrightarrow> \<not> is_ok a \<Longrightarrow>
   lcGraphql net s QUERY_PROBLEMSET_LIST_TITLECN v c1 = (Inl e, c2) \<Longrightarrow>
     lcProblemsetQuestionList net s v calls = (Inl e, c2)"
  by (simp add: lcProblemsetQuestionList_def)

lemma question_first:
  "lcGraphql net s QUERY_QUESTION (JObj [(''titleSlug'', JStr slug)]) calls = (Inr a, c1) \<Longrightarrow> is_ok a \<Longrightarrow>
     lcQuestion net s slug calls = (Inr a, c1)"
  by (simp add: lcQuestion_def)

lemma question_second:
  "lcGraphql net s QUERY_QUESTION (JObj [(''titleSlug'', JStr slug)]) calls = (Inr a, c1) \<Longrightarrow> \<not> is_ok a \<Longrightarrow>
   lcGraphql net s QUERY_QUESTION_TITLECN (JObj [(''titleSlug'', JStr slug)]) c1 = (Inr b, c2) \<Longrightarrow>
     lcQuestion net s slug calls = (Inr (if is_ok b then b else a), c2)"
  by (simp add: lcQuestion_def)

lemma question_first_thrown:
  "lcGraphql net s QUERY_QUESTION (JObj [(''titleSlug'', JStr slug)]) calls = (Inl e, c1) \<Longrightarrow>
     lcQuestion net s slug calls = (Inl e, c1)"
  by (simp add: lcQuestion_def)

lemma question_second_thrown:
  "lcGraphql net s QUERY_QUESTION (JObj [(''titleSlug'', JStr slug)]) calls = (Inr a, c1) \<Longrightarrow> \<not> is_ok a \<Longrightarrow>
   lcGraphql net s QUERY_QUESTION_TITLECN (JObj [(''titleSlug'', JStr slug)]) c1 = (Inl e, c2) \<Longrightarrow>
     lcQuestion net s slug calls = (Inl e, c2)"
  by (simp add: lcQuestion_def)

lemma one_call:
  "lcGraphql net s q v calls = (Inr a, c) \<Longrightarrow> \<exists>rq. graphql_request s q v = Inr rq \<and> c = calls @ [rq]"
  using lcGraphql_Inr [of net s q v calls a c] by blast

text \<open>
  Claim C1, as the code has it. When the first query shape succeeds, its result is
  returned and the one call made is the first query's, so the second is never issued,
  whatever the platform would have answered to it. When the first fails and the second
  succeeds, the second's result is returned. When both fail, the failure returned is the
  first query's, not the second's. An exception of either query leaves the helper. The
  same holds of \<open>lcQuestion\<close>. A query succeeds exactly when the response is within 200
  to 299, its body parses, and the \<open>errors\<close> of the parsed body have no length or length
  zero.
\<close>

theorem fallback_returns_first_failure:
  "(lcGraphql net s QUERY_PROBLEMSET_LIST v calls = (Inr a, ca) \<and> is_ok a \<longrightarrow>
      lcProblemsetQuestionList net s v calls = (Inr a, ca)
      \<and> (\<exists>rq. graphql_request s QUERY_PROBLEMSET_LIST v = Inr rq \<and> ca = calls @ [rq]))
   \<and> (lcGraphql net s QUERY_PROBLEMSET_LIST v calls = (Inr a, ca) \<and> \<not> is_ok a
        \<and> lcGraphql net s QUERY_PROBLEMSET_LIST_TITLECN v ca = (Inr b, cb) \<longrightarrow>
      lcProblemsetQuestionList net s v calls = (Inr (if is_ok b then b else a), cb))
   \<and> (lcGraphql net s QUERY_PROBLEMSET_LIST v calls = (Inl e, ca) \<longrightarrow>
      lcProblemsetQuestionList net s v calls = (Inl e, ca))
   \<and> (lcGraphql net s QUERY_PROBLEMSET_LIST v calls = (Inr a, ca) \<and> \<not> is_ok a
        \<and> lcGraphql net s QUERY_PROBLEMSET_LIST_TITLECN v ca = (Inl e, cb) \<longrightarrow>
      lcProblemsetQuestionList net s v calls = (Inl e, cb))
   \<and> (lcGraphql net s QUERY_QUESTION (JObj [(''titleSlug'', JStr slug)]) calls = (Inr a, ca) \<and> is_ok a \<longrightarrow>
      lcQuestion net s slug calls = (Inr a, ca)
      \<and> (\<exists>rq. graphql_request s QUERY_QUESTION (JObj [(''titleSlug'', JStr slug)]) = Inr rq \<and> ca = calls @ [rq]))
   \<and> (lcGraphql net s QUERY_QUESTION (JObj [(''titleSlug'', JStr slug)]) calls = (Inr a, ca) \<and> \<not> is_ok a
        \<and> lcGraphql net s QUERY_QUESTION_TITLECN (JObj [(''titleSlug'', JStr slug)]) ca = (Inr b, cb) \<longrightarrow>
      lcQuestion net s slug calls = (Inr (if is_ok b then b else a), cb))
   \<and> (lcGraphql net s QUERY_QUESTION (JObj [(''titleSlug'', JStr slug)]) calls = (Inl e, ca) \<longrightarrow>
      lcQuestion net s slug calls = (Inl e, ca))
   \<and> (lcGraphql net s QUERY_QUESTION (JObj [(''titleSlug'', JStr slug)]) calls = (Inr a, ca) \<and> \<not> is_ok a
        \<and> lcGraphql net s QUERY_QUESTION_TITLECN (JObj [(''titleSlug'', JStr slug)]) ca = (Inl e, cb) \<longrightarrow>
      lcQuestion net s slug calls = (Inl e, cb))
   \<and> (graphql_request s q w = Inr rq \<and> net calls rq = Resolves resp
        \<and> lcGraphql net s q w calls = (Inr r, c) \<longrightarrow>
      is_ok r = (ok resp \<and> (\<exists>t j. content resp = Text t (Some j) \<and> j \<noteq> JNull
                   \<and> \<not> truthy (chain (property j ''errors'') ''length''))))"
proof -
  have 1: "lcGraphql net s QUERY_PROBLEMSET_LIST v calls = (Inr a, ca) \<and> is_ok a \<longrightarrow>
      lcProblemsetQuestionList net s v calls = (Inr a, ca)
      \<and> (\<exists>rq. graphql_request s QUERY_PROBLEMSET_LIST v = Inr rq \<and> ca = calls @ [rq])"
    using list_first [of net s v calls a ca] one_call [of net s QUERY_PROBLEMSET_LIST v calls a ca] by blast
  have 2: "lcGraphql net s QUERY_PROBLEMSET_LIST v calls = (Inr a, ca) \<and> \<not> is_ok a
        \<and> lcGraphql net s QUERY_PROBLEMSET_LIST_TITLECN v ca = (Inr b, cb) \<longrightarrow>
      lcProblemsetQuestionList net s v calls = (Inr (if is_ok b then b else a), cb)"
    using list_second [of net s v calls a ca b cb] by blast
  have 3: "lcGraphql net s QUERY_PROBLEMSET_LIST v calls = (Inl e, ca) \<longrightarrow>
      lcProblemsetQuestionList net s v calls = (Inl e, ca)"
    using list_first_thrown [of net s v calls e ca] by blast
  have 4: "lcGraphql net s QUERY_PROBLEMSET_LIST v calls = (Inr a, ca) \<and> \<not> is_ok a
        \<and> lcGraphql net s QUERY_PROBLEMSET_LIST_TITLECN v ca = (Inl e, cb) \<longrightarrow>
      lcProblemsetQuestionList net s v calls = (Inl e, cb)"
    using list_second_thrown [of net s v calls a ca e cb] by blast
  have 5: "lcGraphql net s QUERY_QUESTION (JObj [(''titleSlug'', JStr slug)]) calls = (Inr a, ca) \<and> is_ok a \<longrightarrow>
      lcQuestion net s slug calls = (Inr a, ca)
      \<and> (\<exists>rq. graphql_request s QUERY_QUESTION (JObj [(''titleSlug'', JStr slug)]) = Inr rq \<and> ca = calls @ [rq])"
    using question_first [of net s slug calls a ca]
          one_call [of net s QUERY_QUESTION "JObj [(''titleSlug'', JStr slug)]" calls a ca]
    by blast
  have 6: "lcGraphql net s QUERY_QUESTION (JObj [(''titleSlug'', JStr slug)]) calls = (Inr a, ca) \<and> \<not> is_ok a
        \<and> lcGraphql net s QUERY_QUESTION_TITLECN (JObj [(''titleSlug'', JStr slug)]) ca = (Inr b, cb) \<longrightarrow>
      lcQuestion net s slug calls = (Inr (if is_ok b then b else a), cb)"
    using question_second [of net s slug calls a ca b cb] by blast
  have 7: "lcGraphql net s QUERY_QUESTION (JObj [(''titleSlug'', JStr slug)]) calls = (Inl e, ca) \<longrightarrow>
      lcQuestion net s slug calls = (Inl e, ca)"
    using question_first_thrown [of net s slug calls e ca] by blast
  have 8: "lcGraphql net s QUERY_QUESTION (JObj [(''titleSlug'', JStr slug)]) calls = (Inr a, ca) \<and> \<not> is_ok a
        \<and> lcGraphql net s QUERY_QUESTION_TITLECN (JObj [(''titleSlug'', JStr slug)]) ca = (Inl e, cb) \<longrightarrow>
      lcQuestion net s slug calls = (Inl e, cb)"
    using question_second_thrown [of net s slug calls a ca e cb] by blast
  have 9: "graphql_request s q w = Inr rq \<and> net calls rq = Resolves resp
        \<and> lcGraphql net s q w calls = (Inr r, c) \<longrightarrow>
      is_ok r = (ok resp \<and> (\<exists>t j. content resp = Text t (Some j) \<and> j \<noteq> JNull
                   \<and> \<not> truthy (chain (property j ''errors'') ''length'')))"
    using lcGraphql_ok [of s q w rq net calls resp r c] by blast
  show ?thesis by (intro conjI 1 2 3 4 5 6 7 8 9)
qed

lemma anonymous_request: "graphql_request None q v = Inr (anonymous_sent q v)"
  by (simp add: graphql_request_def lcFetch_request_def lcFetch_headers_def new_Headers_def graphql_init_def
        hset_def set_cred_def set_language_def set_absent_def has_def domain_of_None
        anonymous_sent_def normalize_value_def valid_value_def http_space_def startsWith_def str_truthy_def)

lemma first_only_first:
  "lcGraphql first_only None q v [] = (Inr (Success 200 (Some (JNum (Fin 7)))), [anonymous_sent q v])"
  by (simp add: lcGraphql_built [OF anonymous_request] first_only_def graphql_result_def ok_def access_def chain_def)

lemma first_only_later:
  "lcGraphql first_only None q v [rq] = (Inl FetchRejected, [rq, anonymous_sent q v])"
  by (simp add: lcGraphql_built [OF anonymous_request] first_only_def)

lemma both_fail_first:
  "lcGraphql both_fail None q v [] =
     (Inr (Failure 500 ''HTTP_ERROR'' (RawJson (JObj []))), [anonymous_sent q v])"
  by (simp add: lcGraphql_built [OF anonymous_request] both_fail_def graphql_result_def ok_def)

lemma both_fail_later:
  "lcGraphql both_fail None q v [rq] =
     (Inr (Failure 502 ''HTTP_ERROR'' (RawJson (JObj []))), [rq, anonymous_sent q v])"
  by (simp add: lcGraphql_built [OF anonymous_request] both_fail_def graphql_result_def ok_def)

lemma second_only_first:
  "lcGraphql second_only None q v [] =
     (Inr (Failure 500 ''HTTP_ERROR'' (RawJson (JObj []))), [anonymous_sent q v])"
  by (simp add: lcGraphql_built [OF anonymous_request] second_only_def graphql_result_def ok_def)

lemma second_only_later:
  "lcGraphql second_only None q v [rq] = (Inr (Success 200 (Some (JNum (Fin 7)))), [rq, anonymous_sent q v])"
  by (simp add: lcGraphql_built [OF anonymous_request] second_only_def graphql_result_def ok_def access_def
        chain_def)

theorem fallback_returns_first_failure_witness:
  "lcGraphql first_only None QUERY_PROBLEMSET_LIST_TITLECN (JObj []) [anonymous_sent QUERY_PROBLEMSET_LIST (JObj [])]
     = (Inl FetchRejected,
        [anonymous_sent QUERY_PROBLEMSET_LIST (JObj []), anonymous_sent QUERY_PROBLEMSET_LIST_TITLECN (JObj [])])
   \<and> lcProblemsetQuestionList first_only None (JObj []) []
       = (Inr (Success 200 (Some (JNum (Fin 7)))), [anonymous_sent QUERY_PROBLEMSET_LIST (JObj [])])
   \<and> lcQuestion first_only None ''two-sum'' []
       = (Inr (Success 200 (Some (JNum (Fin 7)))),
          [anonymous_sent QUERY_QUESTION (JObj [(''titleSlug'', JStr ''two-sum'')])])
   \<and> lcProblemsetQuestionList second_only None (JObj []) []
       = (Inr (Success 200 (Some (JNum (Fin 7)))),
          [anonymous_sent QUERY_PROBLEMSET_LIST (JObj []), anonymous_sent QUERY_PROBLEMSET_LIST_TITLECN (JObj [])])
   \<and> lcProblemsetQuestionList both_fail None (JObj []) []
       = (Inr (Failure 500 ''HTTP_ERROR'' (RawJson (JObj []))),
          [anonymous_sent QUERY_PROBLEMSET_LIST (JObj []), anonymous_sent QUERY_PROBLEMSET_LIST_TITLECN (JObj [])])
   \<and> lcQuestion both_fail None ''two-sum'' []
       = (Inr (Failure 500 ''HTTP_ERROR'' (RawJson (JObj []))),
          [anonymous_sent QUERY_QUESTION (JObj [(''titleSlug'', JStr ''two-sum'')]),
           anonymous_sent QUERY_QUESTION_TITLECN (JObj [(''titleSlug'', JStr ''two-sum'')])])"
proof -
  note f = fallback_returns_first_failure [where net = first_only and s = None and calls = "[]"
             and v = "JObj []" and slug = "''two-sum''" and a = "Success 200 (Some (JNum (Fin 7)))"]
  note g = fallback_returns_first_failure [where net = second_only and s = None and calls = "[]"
             and v = "JObj []" and a = "Failure 500 ''HTTP_ERROR'' (RawJson (JObj []))"
             and b = "Success 200 (Some (JNum (Fin 7)))"
             and ca = "[anonymous_sent QUERY_PROBLEMSET_LIST (JObj [])]"]
  note h = fallback_returns_first_failure [where net = both_fail and s = None and calls = "[]"
             and v = "JObj []" and slug = "''two-sum''" and a = "Failure 500 ''HTTP_ERROR'' (RawJson (JObj []))"
             and b = "Failure 502 ''HTTP_ERROR'' (RawJson (JObj []))"]
  have 1: "lcProblemsetQuestionList first_only None (JObj []) []
             = (Inr (Success 200 (Some (JNum (Fin 7)))), [anonymous_sent QUERY_PROBLEMSET_LIST (JObj [])])"
    using f [where ca = "[anonymous_sent QUERY_PROBLEMSET_LIST (JObj [])]"] by (simp add: first_only_first)
  have 2: "lcQuestion first_only None ''two-sum'' []
             = (Inr (Success 200 (Some (JNum (Fin 7)))),
                [anonymous_sent QUERY_QUESTION (JObj [(''titleSlug'', JStr ''two-sum'')])])"
    using f [where ca = "[anonymous_sent QUERY_QUESTION (JObj [(''titleSlug'', JStr ''two-sum'')])]"]
    by (simp add: first_only_first)
  have 3: "lcProblemsetQuestionList second_only None (JObj []) []
             = (Inr (Success 200 (Some (JNum (Fin 7)))),
                [anonymous_sent QUERY_PROBLEMSET_LIST (JObj []), anonymous_sent QUERY_PROBLEMSET_LIST_TITLECN (JObj [])])"
    using g [where cb = "[anonymous_sent QUERY_PROBLEMSET_LIST (JObj []),
                            anonymous_sent QUERY_PROBLEMSET_LIST_TITLECN (JObj [])]"]
    by (simp add: second_only_first second_only_later)
  have 4: "lcProblemsetQuestionList both_fail None (JObj []) []
             = (Inr (Failure 500 ''HTTP_ERROR'' (RawJson (JObj []))),
                [anonymous_sent QUERY_PROBLEMSET_LIST (JObj []), anonymous_sent QUERY_PROBLEMSET_LIST_TITLECN (JObj [])])"
    using h [where ca = "[anonymous_sent QUERY_PROBLEMSET_LIST (JObj [])]"
               and cb = "[anonymous_sent QUERY_PROBLEMSET_LIST (JObj []),
                            anonymous_sent QUERY_PROBLEMSET_LIST_TITLECN (JObj [])]"]
    by (simp add: both_fail_first both_fail_later)
  have 5: "lcQuestion both_fail None ''two-sum'' []
             = (Inr (Failure 500 ''HTTP_ERROR'' (RawJson (JObj []))),
                [anonymous_sent QUERY_QUESTION (JObj [(''titleSlug'', JStr ''two-sum'')]),
                 anonymous_sent QUERY_QUESTION_TITLECN (JObj [(''titleSlug'', JStr ''two-sum'')])])"
    using h [where ca = "[anonymous_sent QUERY_QUESTION (JObj [(''titleSlug'', JStr ''two-sum'')])]"
               and cb = "[anonymous_sent QUERY_QUESTION (JObj [(''titleSlug'', JStr ''two-sum'')]),
                            anonymous_sent QUERY_QUESTION_TITLECN (JObj [(''titleSlug'', JStr ''two-sum'')])]"]
    by (simp add: both_fail_first both_fail_later)
  show ?thesis using 1 2 3 4 5 by (simp add: first_only_later)
qed

text \<open>
  Claim C1 as stated returns the second query's failure when both fail. Against a
  platform that answers 500 and then 502, both helpers return the failure with status
  500, the first query's, while the second query's failure has status 502.
\<close>

theorem second_failure_counterexample:
  "fst (lcProblemsetQuestionList both_fail None (JObj []) []) = Inr (Failure 500 ''HTTP_ERROR'' (RawJson (JObj [])))
   \<and> fst (lcGraphql both_fail None QUERY_PROBLEMSET_LIST_TITLECN (JObj [])
            [anonymous_sent QUERY_PROBLEMSET_LIST (JObj [])])
       = Inr (Failure 502 ''HTTP_ERROR'' (RawJson (JObj [])))
   \<and> fst (lcQuestion both_fail None ''two-sum'' []) = Inr (Failure 500 ''HTTP_ERROR'' (RawJson (JObj [])))
   \<and> fst (lcGraphql both_fail None QUERY_QUESTION_TITLECN (JObj [(''titleSlug'', JStr ''two-sum'')])
            [anonymous_sent QUERY_QUESTION (JObj [(''titleSlug'', JStr ''two-sum'')])])
       = Inr (Failure 502 ''HTTP_ERROR'' (RawJson (JObj [])))"
  by (simp add: lcProblemsetQuestionList_def lcQuestion_def Let_def both_fail_first both_fail_later)

lemma lcGraphql_not_ok:
  assumes "graphql_request s q v = Inr rq" and "net calls rq = Resolves resp"
      and "\<not> ok resp" and "content resp = Text t j"
  shows "lcGraphql net s q v calls =
           (Inr (case j of None \<Rightarrow> Failure (status resp) ''INVALID_JSON'' (RawText t)
                         | Some x \<Rightarrow> Failure (status resp) ''HTTP_ERROR'' (RawJson x)),
            calls @ [rq])"
  using assms by (simp add: lcGraphql_built graphql_result_def split: option.splits)

lemma lcSubmit_built:
  "submit_request s slug qid lang typedCode = Inr rq \<Longrightarrow>
     lcSubmit E net s slug qid lang typedCode calls =
       (case net calls rq of Rejects \<Rightarrow> Inl FetchRejected | Resolves resp \<Rightarrow> submit_result E resp, calls @ [rq])"
  by (simp add: lcSubmit_def lcFetch_def fetch_def submit_request_def split: fetched.splits)

lemma lcSubmit_unbuilt:
  "submit_request s slug qid lang typedCode = Inl e \<Longrightarrow>
     lcSubmit E net s slug qid lang typedCode calls = (Inl e, calls)"
  by (simp add: lcSubmit_def lcFetch_def submit_request_def)

lemma lcSubmissionCheck_built:
  "check_request E s n slug = Inr rq \<Longrightarrow>
     lcSubmissionCheck E net s n slug calls =
       (case net calls rq of Rejects \<Rightarrow> Inl FetchRejected | Resolves resp \<Rightarrow> Inr (check_result resp),
        calls @ [rq])"
  by (simp add: lcSubmissionCheck_def lcFetch_def fetch_def check_request_def split: fetched.splits)

lemma lcSubmissionCheck_unbuilt:
  "check_request E s n slug = Inl e \<Longrightarrow> lcSubmissionCheck E net s n slug calls = (Inl e, calls)"
  by (simp add: lcSubmissionCheck_def lcFetch_def check_request_def)

lemma lcSubmit_not_ok:
  assumes "submit_request s slug qid lang typedCode = Inr rq" and "net calls rq = Resolves resp"
      and "\<not> ok resp"
  shows "lcSubmit E net s slug qid lang typedCode calls =
           (Inr (Failure (status resp) ''HTTP_ERROR'' (raw_of (content resp))), calls @ [rq])"
  using assms by (simp add: lcSubmit_built submit_result_def)

lemma lcSubmissionCheck_not_ok:
  assumes "check_request E s n slug = Inr rq" and "net calls rq = Resolves resp" and "\<not> ok resp"
  shows "lcSubmissionCheck E net s n slug calls =
           (Inr (Failure (status resp) ''HTTP_ERROR'' (raw_of (content resp))), calls @ [rq])"
  using assms by (simp add: lcSubmissionCheck_built check_result_def)

lemma lcGraphql_rejected:
  "graphql_request s q v = Inr rq \<Longrightarrow> net calls rq = Rejects \<Longrightarrow>
     fst (lcGraphql net s q v calls) = Inl FetchRejected"
  by (simp add: lcGraphql_built)

lemma lcSubmit_rejected:
  "submit_request s slug qid lang typedCode = Inr rq \<Longrightarrow> net calls rq = Rejects \<Longrightarrow>
     fst (lcSubmit E net s slug qid lang typedCode calls) = Inl FetchRejected"
  by (simp add: lcSubmit_built)

lemma lcSubmissionCheck_rejected:
  "check_request E s n slug = Inr rq \<Longrightarrow> net calls rq = Rejects \<Longrightarrow>
     fst (lcSubmissionCheck E net s n slug calls) = Inl FetchRejected"
  by (simp add: lcSubmissionCheck_built)

lemma graphql_result_codes:
  "graphql_result resp = Inr (Failure st e r) \<Longrightarrow> e \<in> {''INVALID_JSON'', ''HTTP_ERROR'', ''GRAPHQL_ERROR''}"
  by (auto simp: graphql_result_def split: content.splits option.splits if_splits sum.splits)

lemma submit_result_codes:
  "submit_result E resp = Inr (Failure st e r) \<Longrightarrow> e \<in> {''HTTP_ERROR'', ''NO_SUBMISSION_ID''}"
  by (auto simp: submit_result_def Let_def and_then_eq_Inr split: if_splits)

lemma check_result_codes: "check_result resp = Failure st e r \<Longrightarrow> e = ''HTTP_ERROR''"
  by (auto simp: check_result_def split: if_splits)

lemma lcGraphql_never_unreachable:
  "\<not> names_error ''UPSTREAM_UNREACHABLE'' (fst (lcGraphql net s q v calls))"
proof (cases "graphql_request s q v")
  case (Inl e)
  then show ?thesis by (simp add: lcGraphql_unbuilt names_error_def)
next
  case (Inr rq)
  have "e \<noteq> ''UPSTREAM_UNREACHABLE''" if "graphql_result resp = Inr (Failure st e r)" for resp st e r
    using graphql_result_codes [OF that] by auto
  then show ?thesis
    by (auto simp: names_error_def lcGraphql_built [OF Inr] split: fetched.splits sum.splits result.splits)
qed

lemma lcSubmit_never_unreachable:
  "\<not> names_error ''UPSTREAM_UNREACHABLE'' (fst (lcSubmit E net s slug qid lang typedCode calls))"
proof (cases "submit_request s slug qid lang typedCode")
  case (Inl e)
  then show ?thesis by (simp add: lcSubmit_unbuilt names_error_def)
next
  case (Inr rq)
  have "e \<noteq> ''UPSTREAM_UNREACHABLE''" if "submit_result E resp = Inr (Failure st e r)" for resp st e r
    using submit_result_codes [OF that] by auto
  then show ?thesis
    by (auto simp: names_error_def lcSubmit_built [OF Inr] split: fetched.splits sum.splits result.splits)
qed

lemma lcSubmissionCheck_never_unreachable:
  "\<not> names_error ''UPSTREAM_UNREACHABLE'' (fst (lcSubmissionCheck E net s n slug calls))"
proof (cases "check_request E s n slug")
  case (Inl e)
  then show ?thesis by (simp add: lcSubmissionCheck_unbuilt names_error_def)
next
  case (Inr rq)
  have "e \<noteq> ''UPSTREAM_UNREACHABLE''" if "check_result resp = Failure st e r" for resp st e r
    using check_result_codes [OF that] by auto
  then show ?thesis
    by (auto simp: names_error_def lcSubmissionCheck_built [OF Inr] split: fetched.splits sum.splits result.splits)
qed

text \<open>
  Claim C7, as the code has it. A response outside 200 to 299 comes back from each of the
  three helpers as a failure value with the response's status and its body (parsed when
  it parses, the text otherwise), and the call is made once. When \<open>fetch\<close> rejects,
  the rejection itself leaves the helper as the exception it is; no helper ever produces
  an error named \<open>UPSTREAM_UNREACHABLE\<close>. The request is the one \<open>lcFetch\<close> builds; when
  it cannot be built, the helper ends in that exception and makes no call.
\<close>

theorem upstream_failure_is_data:
  "(graphql_request s q v = Inr rq \<and> net calls rq = Resolves resp \<and> \<not> ok resp \<and> content resp = Text t j \<longrightarrow>
      lcGraphql net s q v calls =
        (Inr (case j of None \<Rightarrow> Failure (status resp) ''INVALID_JSON'' (RawText t)
                      | Some x \<Rightarrow> Failure (status resp) ''HTTP_ERROR'' (RawJson x)),
         calls @ [rq]))
   \<and> (submit_request s slug qid lang typedCode = Inr rq \<and> net calls rq = Resolves resp \<and> \<not> ok resp \<longrightarrow>
      lcSubmit E net s slug qid lang typedCode calls =
        (Inr (Failure (status resp) ''HTTP_ERROR'' (raw_of (content resp))), calls @ [rq]))
   \<and> (check_request E s n t' = Inr rq \<and> net calls rq = Resolves resp \<and> \<not> ok resp \<longrightarrow>
      lcSubmissionCheck E net s n t' calls =
        (Inr (Failure (status resp) ''HTTP_ERROR'' (raw_of (content resp))), calls @ [rq]))
   \<and> (graphql_request s q v = Inr rq \<and> net calls rq = Rejects \<longrightarrow>
      fst (lcGraphql net s q v calls) = Inl FetchRejected)
   \<and> (submit_request s slug qid lang typedCode = Inr rq \<and> net calls rq = Rejects \<longrightarrow>
      fst (lcSubmit E net s slug qid lang typedCode calls) = Inl FetchRejected)
   \<and> (check_request E s n t' = Inr rq \<and> net calls rq = Rejects \<longrightarrow>
      fst (lcSubmissionCheck E net s n t' calls) = Inl FetchRejected)
   \<and> \<not> names_error ''UPSTREAM_UNREACHABLE'' (fst (lcGraphql net s q v calls))
   \<and> \<not> names_error ''UPSTREAM_UNREACHABLE'' (fst (lcSubmit E net s slug qid lang typedCode calls))
   \<and> \<not> names_error ''UPSTREAM_UNREACHABLE'' (fst (lcSubmissionCheck E net s n t' calls))
   \<and> (graphql_request s q v = Inl e \<longrightarrow> lcGraphql net s q v calls = (Inl e, calls))
   \<and> (submit_request s slug qid lang typedCode = Inl e \<longrightarrow>
      lcSubmit E net s slug qid lang typedCode calls = (Inl e, calls))
   \<and> (check_request E s n t' = Inl e \<longrightarrow> lcSubmissionCheck E net s n t' calls = (Inl e, calls))"
proof -
  have 1: "graphql_request s q v = Inr rq \<and> net calls rq = Resolves resp \<and> \<not> ok resp \<and> content resp = Text t j \<longrightarrow>
      lcGraphql net s q v calls =
        (Inr (case j of None \<Rightarrow> Failure (status resp) ''INVALID_JSON'' (RawText t)
                      | Some x \<Rightarrow> Failure (status resp) ''HTTP_ERROR'' (RawJson x)),
         calls @ [rq])"
    using lcGraphql_not_ok [of s q v rq net calls resp t j] by blast
  have 2: "submit_request s slug qid lang typedCode = Inr rq \<and> net calls rq = Resolves resp \<and> \<not> ok resp \<longrightarrow>
      lcSubmit E net s slug qid lang typedCode calls =
        (Inr (Failure (status resp) ''HTTP_ERROR'' (raw_of (content resp))), calls @ [rq])"
    using lcSubmit_not_ok [of s slug qid lang typedCode rq net calls resp E] by blast
  have 3: "check_request E s n t' = Inr rq \<and> net calls rq = Resolves resp \<and> \<not> ok resp \<longrightarrow>
      lcSubmissionCheck E net s n t' calls =
        (Inr (Failure (status resp) ''HTTP_ERROR'' (raw_of (content resp))), calls @ [rq])"
    using lcSubmissionCheck_not_ok [of E s n t' rq net calls resp] by blast
  have 4: "graphql_request s q v = Inr rq \<and> net calls rq = Rejects \<longrightarrow>
      fst (lcGraphql net s q v calls) = Inl FetchRejected"
    using lcGraphql_rejected [of s q v rq net calls] by blast
  have 5: "submit_request s slug qid lang typedCode = Inr rq \<and> net calls rq = Rejects \<longrightarrow>
      fst (lcSubmit E net s slug qid lang typedCode calls) = Inl FetchRejected"
    using lcSubmit_rejected [of s slug qid lang typedCode rq net calls E] by blast
  have 6: "check_request E s n t' = Inr rq \<and> net calls rq = Rejects \<longrightarrow>
      fst (lcSubmissionCheck E net s n t' calls) = Inl FetchRejected"
    using lcSubmissionCheck_rejected [of E s n t' rq net calls] by blast
  have 7: "graphql_request s q v = Inl e \<longrightarrow> lcGraphql net s q v calls = (Inl e, calls)"
    by (simp add: lcGraphql_unbuilt)
  have 8: "submit_request s slug qid lang typedCode = Inl e \<longrightarrow>
      lcSubmit E net s slug qid lang typedCode calls = (Inl e, calls)"
    by (simp add: lcSubmit_unbuilt)
  have 9: "check_request E s n t' = Inl e \<longrightarrow> lcSubmissionCheck E net s n t' calls = (Inl e, calls)"
    by (simp add: lcSubmissionCheck_unbuilt)
  show ?thesis
    by (intro conjI 1 2 3 4 5 6 7 8 9 lcGraphql_never_unreachable lcSubmit_never_unreachable
          lcSubmissionCheck_never_unreachable)
qed

lemma anonymous_submit:
  "submit_request None ''two-sum'' (Some (JStr ''1'')) ''cpp'' ''int main(){}'' = Inr submit_sent"
  by code_simp

lemma anonymous_check: "check_request demo_ecma None (Fin 1001) None = Inr (check_sent None)"
  by code_simp

theorem upstream_failure_is_data_witness:
  "lcGraphql both_fail None QUERY_QUESTION (JObj []) [] =
     (Inr (Failure 500 ''HTTP_ERROR'' (RawJson (JObj []))), [anonymous_sent QUERY_QUESTION (JObj [])])
   \<and> fst (lcSubmit demo_ecma both_fail None ''two-sum'' (Some (JStr ''1'')) ''cpp'' ''int main(){}'' []) =
       Inr (Failure 500 ''HTTP_ERROR'' (RawJson (JObj [])))
   \<and> fst (lcSubmissionCheck demo_ecma both_fail None (Fin 1001) None []) =
       Inr (Failure 500 ''HTTP_ERROR'' (RawJson (JObj [])))
   \<and> fst (lcGraphql unreachable None QUERY_QUESTION (JObj []) []) = Inl FetchRejected
   \<and> fst (lcSubmit demo_ecma unreachable None ''two-sum'' (Some (JStr ''1'')) ''cpp'' ''int main(){}'' [])
       = Inl FetchRejected
   \<and> fst (lcSubmissionCheck demo_ecma unreachable None (Fin 1001) None []) = Inl FetchRejected
   \<and> lcGraphql unreachable (Some (provisional broken_cookie ''leetcode.com'')) QUERY_USER_COM (JObj []) []
       = (Inl TypeError, [])"
proof -
  let ?resp = "\<lparr>status = 500, content = Text ''{}'' (Some (JObj []))\<rparr>"
  have r: "\<not> ok ?resp" "raw_of (content ?resp) = RawJson (JObj [])"
    by (simp_all add: ok_def raw_of_def json_of_def)
  have 1: "lcGraphql both_fail None QUERY_QUESTION (JObj []) [] =
     (Inr (Failure 500 ''HTTP_ERROR'' (RawJson (JObj []))), [anonymous_sent QUERY_QUESTION (JObj [])])"
    using upstream_failure_is_data [where net = both_fail and calls = "[]" and s = None and q = QUERY_QUESTION
            and v = "JObj []" and rq = "anonymous_sent QUERY_QUESTION (JObj [])" and resp = ?resp
            and t = "''{}''" and j = "Some (JObj [])"] r
    by (simp add: anonymous_request both_fail_def)
  have 2: "fst (lcSubmit demo_ecma both_fail None ''two-sum'' (Some (JStr ''1'')) ''cpp'' ''int main(){}'' []) =
       Inr (Failure 500 ''HTTP_ERROR'' (RawJson (JObj [])))"
    using upstream_failure_is_data [where net = both_fail and calls = "[]" and s = None and slug = "''two-sum''"
            and qid = "Some (JStr ''1'')" and lang = "''cpp''" and typedCode = "''int main(){}''"
            and resp = ?resp and E = demo_ecma and rq = submit_sent] r
    by (simp add: anonymous_submit both_fail_def)
  have 3: "fst (lcSubmissionCheck demo_ecma both_fail None (Fin 1001) None []) =
       Inr (Failure 500 ''HTTP_ERROR'' (RawJson (JObj [])))"
    using upstream_failure_is_data [where net = both_fail and calls = "[]" and s = None and E = demo_ecma
            and n = "Fin 1001" and t' = None and resp = ?resp and rq = "check_sent None"] r
    by (simp add: anonymous_check both_fail_def)
  have 4: "fst (lcGraphql unreachable None QUERY_QUESTION (JObj []) []) = Inl FetchRejected"
    using upstream_failure_is_data [where net = unreachable and calls = "[]" and s = None and q = QUERY_QUESTION
            and v = "JObj []" and rq = "anonymous_sent QUERY_QUESTION (JObj [])"]
    by (simp add: anonymous_request unreachable_def)
  have 5: "fst (lcSubmit demo_ecma unreachable None ''two-sum'' (Some (JStr ''1'')) ''cpp'' ''int main(){}'' [])
       = Inl FetchRejected"
    using upstream_failure_is_data [where net = unreachable and calls = "[]" and s = None and slug = "''two-sum''"
            and qid = "Some (JStr ''1'')" and lang = "''cpp''" and typedCode = "''int main(){}''"
            and E = demo_ecma and rq = submit_sent]
    by (simp add: anonymous_submit unreachable_def)
  have 6: "fst (lcSubmissionCheck demo_ecma unreachable None (Fin 1001) None []) = Inl FetchRejected"
    using upstream_failure_is_data [where net = unreachable and calls = "[]" and s = None and E = demo_ecma
            and n = "Fin 1001" and t' = None and rq = "check_sent None"]
    by (simp add: anonymous_check unreachable_def)
  have 7: "lcGraphql unreachable (Some (provisional broken_cookie ''leetcode.com'')) QUERY_USER_COM (JObj []) []
       = (Inl TypeError, [])"
    using upstream_failure_is_data [where net = unreachable and calls = "[]"
            and s = "Some (provisional broken_cookie ''leetcode.com'')" and q = QUERY_USER_COM
            and v = "JObj []" and e = TypeError]
    by (simp add: graphql_request_def broken_request)
  show ?thesis using 1 2 3 4 5 6 7 by simp
qed

text \<open>
  Claim C7 as stated turns a network error into a generic \<open>UPSTREAM_UNREACHABLE\<close> error.
  Against a platform that cannot be reached, each helper ends in the rejection of
  \<open>fetch\<close>, and the outcome names no such error.
\<close>

theorem unreachable_counterexample:
  "fst (lcGraphql unreachable None QUERY_USER_COM (JObj []) []) = Inl FetchRejected
   \<and> \<not> names_error ''UPSTREAM_UNREACHABLE'' (fst (lcGraphql unreachable None QUERY_USER_COM (JObj []) []))
   \<and> fst (lcSubmit demo_ecma unreachable None ''two-sum'' (Some (JStr ''1'')) ''cpp'' ''int main(){}'' [])
       = Inl FetchRejected
   \<and> fst (lcSubmissionCheck demo_ecma unreachable None (Fin 1001) None []) = Inl FetchRejected"
  by (simp add: lcGraphql_built [OF anonymous_request] lcSubmit_built [OF anonymous_submit]
        lcSubmissionCheck_built [OF anonymous_check] unreachable_def names_error_def)

section \<open>Signing in with a cookie\<close>

lemma match_pair_nonempty: "match_pair name s = Some v \<Longrightarrow> v \<noteq> [] \<and> CHR '';'' \<notin> set v"
  by (auto simp: match_pair_def split: option.splits list.splits if_splits dest: set_takeWhileD)

lemma search_pair_nonempty: "search_pair name s = Some v \<Longrightarrow> v \<noteq> [] \<and> CHR '';'' \<notin> set v"
proof (induction s)
  case Nil
  then show ?case by simp
next
  case (Cons c cs)
  then show ?case
    by (auto split: if_splits option.splits dest: match_pair_nonempty)
qed

lemma extractCookieValue_nonempty:
  "extractCookieValue c name = Some v \<Longrightarrow> v \<noteq> [] \<and> CHR '';'' \<notin> set v"
  by (auto simp: extractCookieValue_def split: option.splits
           dest: match_pair_nonempty search_pair_nonempty)

lemma extracted_truthy: "str_truthy (extractCookieValue c name) = (extractCookieValue c name \<noteq> None)"
  using extractCookieValue_nonempty [of c name] by (auto simp: str_truthy_def)

lemma unprintable_truthy: "unprintable v \<Longrightarrow> truthy (Some v)"
  by (cases v) simp_all

lemma or_default_Inl:
  "(opt_String E (js_or a (Some (JStr dflt))) = Inl e) = (e = TypeError \<and> (\<exists>v. a = Some v \<and> unprintable v))"
proof (cases "truthy a")
  case True
  then obtain v where "a = Some v" by (cases a) auto
  then show ?thesis using True by (auto simp: js_or_def opt_String_def js_String_def)
next
  case False
  then have "\<nexists>v. a = Some v \<and> unprintable v" using unprintable_truthy by auto
  then show ?thesis using False by (auto simp: js_or_def opt_String_def js_String_def)
qed

lemma body_text_Inl:
  "(body_text E req k dflt = Inl e) = (e = TypeError \<and> (\<exists>v. chain (req_body req) k = Some v \<and> unprintable v))"
  by (simp add: body_text_def and_then_eq_Inl or_default_Inl)

lemma auth_cookie_Inl:
  "(auth_cookie E req = Inl e) = (e = TypeError \<and> (\<exists>v. chain (req_body req) ''cookie'' = Some v \<and> unprintable v))"
  by (simp add: auth_cookie_def body_text_Inl)

lemma auth_domain_Inl:
  "(auth_domain E req = Inl e) = (e = TypeError \<and> (\<exists>v. chain (req_body req) ''domain'' = Some v \<and> unprintable v))"
  by (simp add: auth_domain_def and_then_eq_Inl body_text_Inl)

lemma post_auth_cookie_read:
  "auth_cookie E req = Inr ck \<Longrightarrow> auth_domain E req = Inr d \<Longrightarrow>
     post_auth_cookie E net uuid req st calls = sign_in net uuid req ck d st calls"
  by (simp add: post_auth_cookie_def)

lemma post_auth_cookie_thrown:
  "auth_cookie E req = Inl e \<or> (auth_cookie E req = Inr ck \<and> auth_domain E req = Inl e) \<Longrightarrow>
     post_auth_cookie E net uuid req st calls = (Inl e, st, calls)"
  by (auto simp: post_auth_cookie_def)

lemma sign_in_rejected:
  "extractCookieValue ck ''csrftoken'' = None \<or> extractCookieValue ck ''LEETCODE_SESSION'' = None \<Longrightarrow>
     sign_in net uuid req ck d st calls =
       (Inr (respond 400 [(''error'', JStr (if ck = [] then ''COOKIE_REQUIRED'' else ''COOKIE_INVALID''))]),
        st, calls)"
  by (auto simp: sign_in_def extracted_truthy)

text \<open>
  Claim C2, as the code has it. The handler first converts the cookie and the domain of
  the body to text. When both conversions return and the cookie text has no \<open>csrftoken\<close>
  pair or no \<open>LEETCODE_SESSION\<close> pair, the answer has status 400, the store is left as
  it was and no call is made to the platform; the error is \<open>COOKIE_INVALID\<close> when the
  trimmed cookie text is not empty, and \<open>COOKIE_REQUIRED\<close> when it is empty or missing.
  A conversion throws exactly when the value is an object with a property \<open>toString\<close> of
  its own, or an array that holds one; then the handler ends in that TypeError, again with
  the store as it was and no call made.
\<close>

theorem sign_in_without_tokens:
  "(auth_cookie E req = Inr ck \<and> auth_domain E req = Inr d
      \<and> (extractCookieValue ck ''csrftoken'' = None \<or> extractCookieValue ck ''LEETCODE_SESSION'' = None) \<longrightarrow>
      post_auth_cookie E net uuid req st calls =
        (Inr (respond 400 [(''error'', JStr (if ck = [] then ''COOKIE_REQUIRED'' else ''COOKIE_INVALID''))]),
         st, calls))
   \<and> (auth_cookie E req = Inl e \<or> (auth_cookie E req = Inr ck \<and> auth_domain E req = Inl e) \<longrightarrow>
      post_auth_cookie E net uuid req st calls = (Inl e, st, calls))
   \<and> (auth_cookie E req = Inl e)
       = (e = TypeError \<and> (\<exists>v. chain (req_body req) ''cookie'' = Some v \<and> unprintable v))
   \<and> (auth_domain E req = Inl e)
       = (e = TypeError \<and> (\<exists>v. chain (req_body req) ''domain'' = Some v \<and> unprintable v))"
proof -
  have 1: "auth_cookie E req = Inr ck \<and> auth_domain E req = Inr d
      \<and> (extractCookieValue ck ''csrftoken'' = None \<or> extractCookieValue ck ''LEETCODE_SESSION'' = None) \<longrightarrow>
      post_auth_cookie E net uuid req st calls =
        (Inr (respond 400 [(''error'', JStr (if ck = [] then ''COOKIE_REQUIRED'' else ''COOKIE_INVALID''))]),
         st, calls)"
    using post_auth_cookie_read [of E req ck d net uuid st calls] sign_in_rejected [of ck net uuid req d st calls]
    by simp
  have 2: "auth_cookie E req = Inl e \<or> (auth_cookie E req = Inr ck \<and> auth_domain E req = Inl e) \<longrightarrow>
      post_auth_cookie E net uuid req st calls = (Inl e, st, calls)"
    using post_auth_cookie_thrown [of E req e ck net uuid st calls] by blast
  show ?thesis
    by (intro conjI 1 2 auth_cookie_Inl auth_domain_Inl)
qed

lemma half_cookie: "auth_cookie demo_ecma (post_cookie ''csrftoken=abc'') = Inr ''csrftoken=abc''"
  by code_simp

lemma half_domain: "auth_domain demo_ecma (post_cookie ''csrftoken=abc'') = Inr ''leetcode.com''"
  by code_simp

lemma half_cookie_session: "extractCookieValue ''csrftoken=abc'' ''LEETCODE_SESSION'' = None"
  by code_simp

lemma stringless_cookie:
  "auth_cookie demo_ecma (post_domain ''csrftoken=abc'' (JObj [(''toString'', JNum (Fin 1))])) = Inr ''csrftoken=abc''"
  by code_simp

lemma stringless_domain:
  "auth_domain demo_ecma (post_domain ''csrftoken=abc'' (JObj [(''toString'', JNum (Fin 1))])) = Inl TypeError"
  by code_simp

theorem sign_in_without_tokens_witness:
  "post_auth_cookie demo_ecma unreachable ''sid-1'' (post_cookie ''csrftoken=abc'') Map.empty [] =
     (Inr (respond 400 [(''error'', JStr ''COOKIE_INVALID'')]), Map.empty, [])
   \<and> post_auth_cookie demo_ecma unreachable ''sid-1''
        (post_domain ''csrftoken=abc'' (JObj [(''toString'', JNum (Fin 1))])) Map.empty [] =
     (Inl TypeError, Map.empty, [])"
  using sign_in_without_tokens [where E = demo_ecma and req = "post_cookie ''csrftoken=abc''"
          and ck = "''csrftoken=abc''" and d = "''leetcode.com''" and net = unreachable and uuid = "''sid-1''"
          and st = Map.empty and calls = "[]"]
        sign_in_without_tokens [where E = demo_ecma
          and req = "post_domain ''csrftoken=abc'' (JObj [(''toString'', JNum (Fin 1))])"
          and ck = "''csrftoken=abc''" and e = TypeError and net = unreachable and uuid = "''sid-1''"
          and st = Map.empty and calls = "[]"]
  by (simp add: half_cookie half_domain half_cookie_session stringless_cookie stringless_domain)

text \<open>
  Claim C2 as stated answers \<open>COOKIE_INVALID\<close> whenever a pair is lacking. An empty
  cookie text lacks both, and the answer is \<open>COOKIE_REQUIRED\<close>. With the cookie text
  \<open>csrftoken=abc\<close>, which lacks the session pair, and a domain that is an object with a
  property \<open>toString\<close>, the handler answers nothing: it ends in a TypeError.
\<close>

theorem empty_cookie_counterexample:
  "auth_cookie demo_ecma (post_cookie []) = Inr []
   \<and> extractCookieValue [] ''csrftoken'' = None
   \<and> fst (post_auth_cookie demo_ecma unreachable ''sid-1'' (post_cookie []) Map.empty [])
       = Inr (respond 400 [(''error'', JStr ''COOKIE_REQUIRED'')])
   \<and> auth_cookie demo_ecma (post_domain ''csrftoken=abc'' (JObj [(''toString'', JNum (Fin 1))]))
       = Inr ''csrftoken=abc''
   \<and> extractCookieValue ''csrftoken=abc'' ''LEETCODE_SESSION'' = None
   \<and> fst (post_auth_cookie demo_ecma unreachable ''sid-1''
            (post_domain ''csrftoken=abc'' (JObj [(''toString'', JNum (Fin 1))])) Map.empty [])
       = Inl TypeError"
  by code_simp

lemma isVerified_of_cases:
  "isVerified_of v \<in> {JBool True, JBool False, JNull}"
  by (auto simp: isVerified_of_def split: option.splits json.splits)

lemma isVerified_of_unknown: "nullish v \<Longrightarrow> isVerified_of v = JNull"
  by (cases v rule: nullish.cases) (simp_all add: isVerified_of_def)

lemma normalizeUser_null: "(normalizeUser d us = JNull) = (\<not> truthy us)"
  by (simp add: normalizeUser_def Let_def)

lemma normalizeUser_signed_in:
  "truthy (Some u) \<Longrightarrow>
     property (normalizeUser d (Some u)) ''is_signed_in'' = Some (JBool (truthy (property u ''is_signed_in'')))"
  by (simp add: normalizeUser_def Let_def)

lemma normalizeUser_verified:
  "truthy (Some u) \<Longrightarrow>
     property (normalizeUser d (Some u)) ''is_verified'' = Some (isVerified_of (property u ''is_verified''))"
  by (simp add: normalizeUser_def Let_def)

lemma signed_in_flag:
  "signed_in uuid req ck d data st = (r, st') \<Longrightarrow> code r = 200 \<Longrightarrow>
     property (sent r) ''emailNotVerified''
       = Some (JBool (chain (property (sent r) ''user'') ''is_verified'' = Some (JBool False)))"
  by (auto simp: signed_in_def Let_def respond_def emailNotVerified_of_def split: if_splits)

lemma sign_in_flag:
  "sign_in net uuid req ck d st calls = (Inr r, st', calls') \<Longrightarrow> code r = 200 \<Longrightarrow>
     property (sent r) ''emailNotVerified''
       = Some (JBool (chain (property (sent r) ''user'') ''is_verified'' = Some (JBool False)))"
  by (auto simp: sign_in_def respond_def
           split: if_splits prod.splits sum.splits result.splits dest: signed_in_flag)

lemma post_auth_cookie_flag:
  "post_auth_cookie E net uuid req st calls = (Inr r, st', calls') \<Longrightarrow> code r = 200 \<Longrightarrow>
     property (sent r) ''emailNotVerified''
       = Some (JBool (chain (property (sent r) ''user'') ''is_verified'' = Some (JBool False)))"
  by (auto simp: post_auth_cookie_def split: sum.splits dest: sign_in_flag)

lemma sign_in_signed_out:
  assumes "ck \<noteq> []"
      and "extractCookieValue ck ''csrftoken'' \<noteq> None"
      and "extractCookieValue ck ''LEETCODE_SESSION'' \<noteq> None"
      and "lcGraphql net (Some (provisional ck d)) (meQuery d) (JObj []) calls = (Inr (Success x data), calls')"
      and "u = normalizeUser d (chain data ''userStatus'')"
      and "u = JNull \<or> property u ''is_signed_in'' = Some (JBool False)"
  shows "sign_in net uuid req ck d st calls
           = (Inr (respond 401 [(''error'', JStr ''NOT_SIGNED_IN''), (''user'', u)]), st, calls')"
proof -
  have "\<not> truthy (chain (Some u) ''is_signed_in'')"
    using assms(6) by (auto simp: chain_def split: json.splits)
  then show ?thesis
    using assms(1-5) by (simp add: sign_in_def extracted_truthy signed_in_def)
qed

text \<open>
  Claim C3. When the cookie and the domain of the body are read, the cookie passes the
  two checks, the user-status query succeeds and the normalized profile is absent or has
  \<open>is_signed_in\<close> false, the answer is 401 \<open>NOT_SIGNED_IN\<close> carrying that profile, the
  store is left as it was, and the one call made is the query's.
\<close>

theorem not_signed_in_rejected:
  assumes "auth_cookie E req = Inr ck"
      and "auth_domain E req = Inr d"
      and "ck \<noteq> []"
      and "extractCookieValue ck ''csrftoken'' \<noteq> None"
      and "extractCookieValue ck ''LEETCODE_SESSION'' \<noteq> None"
      and "lcGraphql net (Some (provisional ck d)) (meQuery d) (JObj []) calls = (Inr (Success x data), calls')"
      and "u = normalizeUser d (chain data ''userStatus'')"
      and "u = JNull \<or> property u ''is_signed_in'' = Some (JBool False)"
  shows "post_auth_cookie E net uuid req st calls
           = (Inr (respond 401 [(''error'', JStr ''NOT_SIGNED_IN''), (''user'', u)]), st, calls')"
  unfolding post_auth_cookie_read [OF assms(1,2)] by (rule sign_in_signed_out [OF assms(3-8)])

lemma demo_auth_cookie: "auth_cookie demo_ecma (post_cookie demo_cookie) = Inr demo_cookie"
  by code_simp

lemma demo_auth_domain: "auth_domain demo_ecma (post_cookie demo_cookie) = Inr ''leetcode.com''"
  by code_simp

lemma demo_cookie_tokens:
  "demo_cookie \<noteq> [] \<and> extractCookieValue demo_cookie ''csrftoken'' = Some ''abc''
   \<and> extractCookieValue demo_cookie ''LEETCODE_SESSION'' = Some ''xyz''"
  by code_simp

lemma demo_provisional_request:
  "graphql_request (Some (provisional demo_cookie ''leetcode.com'')) (meQuery ''leetcode.com'') (JObj [])
     = Inr (graphql_sent demo_cookie ''abc'')"
  by code_simp

lemma signed_out_query:
  "lcGraphql (answers (user_status False JNull)) (Some (provisional demo_cookie ''leetcode.com''))
     (meQuery ''leetcode.com'') (JObj []) []
   = (Inr (Success 200 (property (user_status False JNull) ''data'')), [graphql_sent demo_cookie ''abc''])"
  by (simp add: lcGraphql_built [OF demo_provisional_request] answers_def graphql_result_def ok_def access_def
        chain_def user_status_def)

lemma isCnDomain_com: "\<not> isCnDomain ''leetcode.com''"
  by code_simp

lemma signed_out_user:
  "normalizeUser ''leetcode.com'' (chain (property (user_status False JNull) ''data'') ''userStatus'')
   = JObj [(''id'', JNum (Fin 7)), (''name'', JStr ''alice''), (''is_signed_in'', JBool False),
           (''is_premium'', JBool False), (''is_verified'', JNull), (''session_id'', JNull)]"
  by (simp add: normalizeUser_def user_status_def chain_def isCnDomain_com isVerified_of_def js_coalesce_def)

theorem not_signed_in_rejected_witness:
  "post_auth_cookie demo_ecma (answers (user_status False JNull)) ''sid-1'' (post_cookie demo_cookie) Map.empty []
   = (Inr (respond 401 [(''error'', JStr ''NOT_SIGNED_IN''),
                        (''user'', JObj [(''id'', JNum (Fin 7)), (''name'', JStr ''alice''),
                                         (''is_signed_in'', JBool False), (''is_premium'', JBool False),
                                         (''is_verified'', JNull), (''session_id'', JNull)])]),
      Map.empty, [graphql_sent demo_cookie ''abc''])"
proof -
  have 3: "demo_cookie \<noteq> []"
    and 4: "extractCookieValue demo_cookie ''csrftoken'' \<noteq> None"
    and 5: "extractCookieValue demo_cookie ''LEETCODE_SESSION'' \<noteq> None"
    using demo_cookie_tokens by simp_all
  show ?thesis
    using not_signed_in_rejected [OF demo_auth_cookie demo_auth_domain 3 4 5 signed_out_query refl,
            of "''sid-1''" Map.empty]
    by (simp add: signed_out_user)
qed

text \<open>
  Claim C4. Whenever \<open>normalizeUser\<close> produces a profile, as it does for every object,
  its \<open>is_signed_in\<close> is a boolean, the truthiness of the upstream value, and its
  \<open>is_verified\<close> is true, false or null: null when the upstream value is null or
  absent, and the upstream value itself when that is a boolean. In every successful
  sign-in the flag \<open>emailNotVerified\<close> is true exactly when the \<open>is_verified\<close> of the
  returned user is the boolean false.
\<close>

theorem normalized_profile_flags:
  "(normalizeUser d (Some u) \<noteq> JNull \<longrightarrow>
      property (normalizeUser d (Some u)) ''is_signed_in'' = Some (JBool (truthy (property u ''is_signed_in'')))
      \<and> property (normalizeUser d (Some u)) ''is_verified'' \<in> {Some (JBool True), Some (JBool False), Some JNull}
      \<and> (nullish (property u ''is_verified'') \<longrightarrow>
           property (normalizeUser d (Some u)) ''is_verified'' = Some JNull)
      \<and> (property u ''is_verified'' = Some (JBool b) \<longrightarrow>
           property (normalizeUser d (Some u)) ''is_verified'' = Some (JBool b)))
   \<and> normalizeUser d (Some (JObj kvs)) \<noteq> JNull
   \<and> (post_auth_cookie E net uuid req st calls = (Inr r, st', calls') \<and> code r = 200 \<longrightarrow>
        property (sent r) ''emailNotVerified''
          = Some (JBool (chain (property (sent r) ''user'') ''is_verified'' = Some (JBool False))))"
proof -
  have a: "property (normalizeUser d (Some u)) ''is_signed_in'' = Some (JBool (truthy (property u ''is_signed_in'')))"
    and b: "property (normalizeUser d (Some u)) ''is_verified'' \<in> {Some (JBool True), Some (JBool False), Some JNull}"
    and c: "nullish (property u ''is_verified'') \<longrightarrow>
              property (normalizeUser d (Some u)) ''is_verified'' = Some JNull"
    and e: "property u ''is_verified'' = Some (JBool b) \<longrightarrow>
              property (normalizeUser d (Some u)) ''is_verified'' = Some (JBool b)"
    if "normalizeUser d (Some u) \<noteq> JNull"
  proof -
    have t: "truthy (Some u)" using that by (simp add: normalizeUser_null)
    show "property (normalizeUser d (Some u)) ''is_signed_in'' = Some (JBool (truthy (property u ''is_signed_in'')))"
      by (rule normalizeUser_signed_in [OF t])
    show "property (normalizeUser d (Some u)) ''is_verified'' \<in> {Some (JBool True), Some (JBool False), Some JNull}"
      using isVerified_of_cases [of "property u ''is_verified''"] by (simp add: normalizeUser_verified [OF t])
    show "nullish (property u ''is_verified'') \<longrightarrow>
              property (normalizeUser d (Some u)) ''is_verified'' = Some JNull"
      by (simp add: normalizeUser_verified [OF t] isVerified_of_unknown)
    show "property u ''is_verified'' = Some (JBool b) \<longrightarrow>
              property (normalizeUser d (Some u)) ''is_verified'' = Some (JBool b)"
      by (simp add: normalizeUser_verified [OF t] isVerified_of_def)
  qed
  have f: "normalizeUser d (Some (JObj kvs)) \<noteq> JNull"
    by (simp add: normalizeUser_null)
  show ?thesis
    using a b c e f post_auth_cookie_flag [of E net uuid req st calls r st' calls'] by blast
qed

lemma signed_in_query:
  "lcGraphql (answers (user_status True (JBool False))) (Some (provisional demo_cookie ''leetcode.com''))
     (meQuery ''leetcode.com'') (JObj []) []
   = (Inr (Success 200 (property (user_status True (JBool False)) ''data'')), [graphql_sent demo_cookie ''abc''])"
  by (simp add: lcGraphql_built [OF demo_provisional_request] answers_def graphql_result_def ok_def access_def
        chain_def user_status_def)

lemma signed_in_user:
  "normalizeUser ''leetcode.com'' (chain (property (user_status True (JBool False)) ''data'') ''userStatus'') = alice"
  by (simp add: normalizeUser_def user_status_def chain_def isCnDomain_com isVerified_of_def js_coalesce_def alice_def)

lemma signed_in_reply:
  "post_auth_cookie demo_ecma (answers (user_status True (JBool False))) ''sid-1'' (post_cookie demo_cookie)
     Map.empty []
   = (Inr \<lparr>code = 200, sent = JObj [(''user'', alice), (''emailNotVerified'', JBool True)],
           cookies = [ClearCookie, SetCookie ''sid-1'']\<rparr>,
      setSession ''sid-1'' ((provisional demo_cookie ''leetcode.com'')\<lparr>user := Some alice\<rparr>)
        (clearSession (post_cookie demo_cookie) Map.empty),
      [graphql_sent demo_cookie ''abc''])"
proof -
  have 1: "demo_cookie \<noteq> []"
    and 2: "str_truthy (extractCookieValue demo_cookie ''csrftoken'')"
    and 3: "str_truthy (extractCookieValue demo_cookie ''LEETCODE_SESSION'')"
    using demo_cookie_tokens by (simp_all add: str_truthy_def)
  have 4: "signed_in ''sid-1'' (post_cookie demo_cookie) demo_cookie ''leetcode.com''
             (property (user_status True (JBool False)) ''data'') Map.empty
           = (\<lparr>code = 200, sent = JObj [(''user'', alice), (''emailNotVerified'', JBool True)],
                cookies = [ClearCookie, SetCookie ''sid-1'']\<rparr>,
              setSession ''sid-1'' ((provisional demo_cookie ''leetcode.com'')\<lparr>user := Some alice\<rparr>)
                (clearSession (post_cookie demo_cookie) Map.empty))"
    unfolding signed_in_def signed_in_user
    by (simp add: alice_def chain_def emailNotVerified_of_def Let_def)
  show ?thesis
    unfolding post_auth_cookie_read [OF demo_auth_cookie demo_auth_domain] sign_in_def
    using 1 2 3 by (simp add: signed_in_query 4)
qed

theorem normalized_profile_flags_witness:
  "normalizeUser ''leetcode.com'' (Some (JObj [(''is_signed_in'', JBool True)])) \<noteq> JNull
   \<and> property (normalizeUser ''leetcode.com'' (Some (JObj [(''is_signed_in'', JBool True)]))) ''is_signed_in''
       = Some (JBool True)
   \<and> property (normalizeUser ''leetcode.com'' (Some (JObj [(''is_signed_in'', JBool True)]))) ''is_verified''
       = Some JNull
   \<and> fst (post_auth_cookie demo_ecma (answers (user_status True (JBool False))) ''sid-1''
             (post_cookie demo_cookie) Map.empty [])
       = Inr \<lparr>code = 200, sent = JObj [(''user'', alice), (''emailNotVerified'', JBool True)],
               cookies = [ClearCookie, SetCookie ''sid-1'']\<rparr>
   \<and> property (JObj [(''user'', alice), (''emailNotVerified'', JBool True)]) ''emailNotVerified''
       = Some (JBool (chain (property (JObj [(''user'', alice), (''emailNotVerified'', JBool True)]) ''user'')
                        ''is_verified'' = Some (JBool False)))"
  using normalized_profile_flags [of "''leetcode.com''" "JObj [(''is_signed_in'', JBool True)]" True "[]"
          demo_ecma "answers (user_status True (JBool False))" "''sid-1''" "post_cookie demo_cookie"
          Map.empty "[]"
          "\<lparr>code = 200, sent = JObj [(''user'', alice), (''emailNotVerified'', JBool True)],
            cookies = [ClearCookie, SetCookie ''sid-1'']\<rparr>"
          "setSession ''sid-1'' ((provisional demo_cookie ''leetcode.com'')\<lparr>user := Some alice\<rparr>)
             (clearSession (post_cookie demo_cookie) Map.empty)"
          "[graphql_sent demo_cookie ''abc'']"]
  by (simp add: signed_in_reply normalizeUser_null)

section \<open>Localization fill-in\<close>

lemma fillTitleZh_populated: "truthy (map_of it ''titleZh'') \<Longrightarrow> fillTitleZh m it = it"
  by (simp add: fillTitleZh_def)

lemma fillTitleZh_result:
  "fillTitleZh m it = it
   \<or> (\<not> truthy (map_of it ''titleZh'')
       \<and> (\<exists>s zh. map_of it ''titleSlug'' = Some (JStr s) \<and> m s = Some zh \<and> truthy (Some zh)
                  \<and> fillTitleZh m it = AList.update ''titleZh'' zh it))"
proof (cases "truthy (map_of it ''titleZh'')")
  case True
  then show ?thesis by (simp add: fillTitleZh_def)
next
  case False
  show ?thesis
  proof (cases "truthy (cnMap_get m (map_of it ''titleSlug''))")
    case t: True
    then obtain s where s: "map_of it ''titleSlug'' = Some (JStr s)"
      by (auto simp: cnMap_get_def split: option.splits json.splits)
    with t obtain zh where zh: "m s = Some zh" "truthy (Some zh)"
      by (cases "m s") (auto simp: cnMap_get_def)
    have "fillTitleZh m it = AList.update ''titleZh'' zh it"
      using False t s zh by (simp add: fillTitleZh_def cnMap_get_def)
    then show ?thesis using False s zh by blast
  next
    case False
    then show ?thesis by (simp add: fillTitleZh_def Let_def)
  qed
qed

lemma fillTitleZh_other:
  "k \<noteq> ''titleZh'' \<Longrightarrow> map_of (fillTitleZh m it) k = map_of it k"
  by (simp add: fillTitleZh_def Let_def update_conv')

lemma fillTitleZh_idem: "fillTitleZh m (fillTitleZh m it) = fillTitleZh m it"
proof -
  consider "fillTitleZh m it = it"
    | zh where "truthy (Some zh)" "fillTitleZh m it = AList.update ''titleZh'' zh it"
    using fillTitleZh_result [of m it] by blast
  then show ?thesis
  proof cases
    case 1
    then show ?thesis by simp
  next
    case 2
    have "truthy (map_of (fillTitleZh m it) ''titleZh'')"
      using 2 by (simp add: update_conv')
    then show ?thesis by (rule fillTitleZh_populated)
  qed
qed

lemma cnFill_cases:
  "cnFill E s items cn = Inr items' \<Longrightarrow> items' = items \<or> (\<exists>m. items' = map (fillTitleZh m) items)"
  by (auto simp: cnFill_def and_then_eq_Inr split: option.splits if_splits)

lemma cnFill_populated:
  "cnFill E s items cn = Inr items' \<Longrightarrow> i < length items \<Longrightarrow> truthy (map_of (items ! i) ''titleZh'') \<Longrightarrow>
     items' ! i = items ! i"
  using cnFill_cases [of E s items cn items'] by (auto simp: fillTitleZh_populated)

lemma cnFill_length: "cnFill E s items cn = Inr items' \<Longrightarrow> length items' = length items"
  using cnFill_cases [of E s items cn items'] by auto

lemma cnFill_idem:
  assumes "cnFill E s items cn = Inr items'"
  shows "cnFill E s items' cn = Inr items'"
proof (cases "needCnFill s items")
  case False
  then show ?thesis using assms by (simp add: cnFill_def)
next
  case need: True
  show ?thesis
  proof (cases "questions_of cn")
    case None
    then show ?thesis using assms by (auto simp: cnFill_def)
  next
    case (Some xs)
    from assms need Some obtain m where m: "cnMap_of E xs = Inr m" and 1: "items' = map (fillTitleZh m) items"
      by (auto simp: cnFill_def and_then_eq_Inr)
    have 2: "map (fillTitleZh m) items' = items'"
      unfolding 1 by (simp add: fillTitleZh_idem)
    show ?thesis
      using Some m 2 by (simp add: cnFill_def)
  qed
qed


lemma map_of_put: "map_of (put k v kvs) k' = (if k' = k then v else map_of kvs k')"
  by (cases v) (simp_all add: put_def update_conv' delete_conv')

lemma put_triv: "map_of kvs k = v \<Longrightarrow> put k v kvs = kvs"
  by (cases v) (auto simp: put_def update_triv map_of_eq_None_iff)

lemma js_or_falsy: "\<not> truthy (js_or a (js_or b c)) \<Longrightarrow> js_or a (js_or b c) = c"
  by (auto simp: js_or_def split: if_splits)

lemma localize_populated:
  "truthy (property q ''translated_title'') \<or> truthy (property q ''translated_content'') \<Longrightarrow>
     localize s q cn = Inr q"
  by (auto simp: localize_def missingZh_def)

lemma fill_question_obj:
  "fill_question (JObj kvs) c =
     Inr (JObj (put ''translated_content''
                  (js_or (property c ''translated_content'')
                     (js_or (property c ''content'') (map_of kvs ''translated_content'')))
                  (put ''translated_title''
                     (js_or (property c ''translated_title'')
                        (js_or (property c ''title'') (map_of kvs ''translated_title''))) kvs)))"
  by (simp add: fill_question_def assign_def map_of_put)

lemma fill_question_arr: "fill_question (JArr xs) c = Inr (JArr xs)"
  by (simp add: fill_question_def assign_def)

lemma fill_question_again:
  assumes "fill_question q c = Inr q'"
  shows "\<not> missingZh q' \<or> q' = q"
proof (cases q)
  case (JObj kvs)
  let ?t = "js_or (property c ''translated_title'') (js_or (property c ''title'') (map_of kvs ''translated_title''))"
  let ?u = "js_or (property c ''translated_content'')
              (js_or (property c ''content'') (map_of kvs ''translated_content''))"
  have q': "q' = JObj (put ''translated_content'' ?u (put ''translated_title'' ?t kvs))"
    using assms JObj by (simp add: fill_question_obj)
  show ?thesis
  proof (cases "truthy ?t \<or> truthy ?u")
    case True
    then have "\<not> missingZh q'"
      unfolding q' by (auto simp: missingZh_def map_of_put)
    then show ?thesis ..
  next
    case False
    then have t: "?t = map_of kvs ''translated_title''" and u: "?u = map_of kvs ''translated_content''"
      by (auto dest: js_or_falsy)
    have 1: "put ''translated_title'' ?t kvs = kvs"
      by (rule put_triv) (simp add: t)
    have 2: "put ''translated_content'' ?u kvs = kvs"
      by (rule put_triv) (simp add: u)
    have "q' = q" unfolding q' JObj 1 2 ..
    then show ?thesis ..
  qed
next
  case (JArr xs)
  then show ?thesis using assms by (simp add: fill_question_arr)
qed (use assms in \<open>simp_all add: fill_question_def assign_def\<close>)

lemma localize_idem:
  assumes "localize s q cn = Inr q'"
  shows "localize s q' cn = Inr q'"
proof (cases "isCom s \<and> missingZh q \<and> truthy (cnQ_of cn)")
  case False
  then have "q' = q" using assms by (auto simp: localize_def split: if_splits)
  then show ?thesis using assms by simp
next
  case True
  then have f: "fill_question q (the (cnQ_of cn)) = Inr q'"
    using assms by (simp add: localize_def)
  from fill_question_again [OF f] show ?thesis
  proof
    assume "\<not> missingZh q'"
    then show ?thesis by (simp add: localize_def)
  next
    assume "q' = q"
    then show ?thesis using assms by simp
  qed
qed

lemma localize_keeps:
  assumes "localize s q cn = Inr q'"
  shows "(truthy (property q ''translated_title'') \<longrightarrow>
            property q' ''translated_title'' = property q ''translated_title'')
       \<and> (truthy (property q ''translated_content'') \<longrightarrow>
            property q' ''translated_content'' = property q ''translated_content'')"
  using assms localize_populated [of q s cn] by auto


text \<open>
  Claim C6. In the list, an item whose localized title is populated is returned as it
  is; filling twice gives what filling once gives; an item that changes had no localized
  title, has a slug for which the secondary catalog has a title, and gets that title and
  nothing else. The same holds of the whole enrichment step \<open>cnFill\<close> whenever it returns
  a list, which has as many items as it was given. In the detail,
  the enrichment never changes a populated localized title or content, and applying it
  again to its own result changes nothing.
\<close>

theorem localization_fill_in:
  "(truthy (map_of it ''titleZh'') \<longrightarrow> fillTitleZh m it = it)
   \<and> fillTitleZh m (fillTitleZh m it) = fillTitleZh m it
   \<and> (fillTitleZh m it = it
       \<or> (\<not> truthy (map_of it ''titleZh'')
           \<and> (\<exists>t zh. map_of it ''titleSlug'' = Some (JStr t) \<and> m t = Some zh \<and> truthy (Some zh)
                      \<and> fillTitleZh m it = AList.update ''titleZh'' zh it)))
   \<and> (k \<noteq> ''titleZh'' \<longrightarrow> map_of (fillTitleZh m it) k = map_of it k)
   \<and> (cnFill E s items cn = Inr items' \<and> i < length items \<and> truthy (map_of (items ! i) ''titleZh'') \<longrightarrow>
        items' ! i = items ! i)
   \<and> (cnFill E s items cn = Inr items' \<longrightarrow> cnFill E s items' cn = Inr items' \<and> length items' = length items)
   \<and> (localize s q cq = Inr q' \<longrightarrow>
        (truthy (property q ''translated_title'') \<longrightarrow>
           property q' ''translated_title'' = property q ''translated_title'')
        \<and> (truthy (property q ''translated_content'') \<longrightarrow>
           property q' ''translated_content'' = property q ''translated_content'')
        \<and> localize s q' cq = Inr q')"
  using fillTitleZh_populated [of it m] fillTitleZh_idem [of m it] fillTitleZh_result [of m it]
        fillTitleZh_other [of k m it] cnFill_populated [of E s items cn items' i]
        cnFill_idem [of E s items cn items'] cnFill_length [of E s items cn items']
        localize_keeps [of s q cq q'] localize_idem [of s q cq q']
  by blast

lemma demo_cnFill:
  "cnFill demo_ecma demo_session demo_items demo_cn_list =
     Inr [[(''title'', JStr ''Two Sum''), (''titleZh'', JStr ''zh: two sum''), (''titleSlug'', JStr ''two-sum'')],
          [(''title'', JStr ''Add Two Numbers''), (''titleZh'', JStr ''zh: add two''),
           (''titleSlug'', JStr ''add-two-numbers'')]]"
  by code_simp

lemma demo_localize:
  "localize demo_session demo_question demo_cn_question =
     Inr (JObj [(''title'', JStr ''Two Sum''), (''translated_title'', JStr ''zh: two sum''),
                (''content'', JStr ''<p>''), (''translated_content'', JStr ''<p>zh'')])"
  by code_simp

theorem localization_fill_in_witness:
  "truthy (map_of (demo_items ! 0) ''titleZh'')
   \<and> cnFill demo_ecma demo_session demo_items demo_cn_list
       = Inr [demo_items ! 0,
              [(''title'', JStr ''Add Two Numbers''), (''titleZh'', JStr ''zh: add two''),
               (''titleSlug'', JStr ''add-two-numbers'')]]
   \<and> cnFill demo_ecma demo_session
        [demo_items ! 0,
         [(''title'', JStr ''Add Two Numbers''), (''titleZh'', JStr ''zh: add two''),
          (''titleSlug'', JStr ''add-two-numbers'')]] demo_cn_list
       = Inr [demo_items ! 0,
              [(''title'', JStr ''Add Two Numbers''), (''titleZh'', JStr ''zh: add two''),
               (''titleSlug'', JStr ''add-two-numbers'')]]
   \<and> localize demo_session
        (JObj [(''title'', JStr ''Two Sum''), (''translated_title'', JStr ''zh: two sum''),
               (''content'', JStr ''<p>''), (''translated_content'', JStr ''<p>zh'')]) demo_cn_question
       = Inr (JObj [(''title'', JStr ''Two Sum''), (''translated_title'', JStr ''zh: two sum''),
                    (''content'', JStr ''<p>''), (''translated_content'', JStr ''<p>zh'')])"
  using localization_fill_in [where it = "demo_items ! 0" and i = 0 and items = demo_items and E = demo_ecma
          and s = demo_session and cn = demo_cn_list and q = demo_question and cq = demo_cn_question
          and items' = "[[(''title'', JStr ''Two Sum''), (''titleZh'', JStr ''zh: two sum''),
                          (''titleSlug'', JStr ''two-sum'')],
                         [(''title'', JStr ''Add Two Numbers''), (''titleZh'', JStr ''zh: add two''),
                          (''titleSlug'', JStr ''add-two-numbers'')]]"
          and q' = "JObj [(''title'', JStr ''Two Sum''), (''translated_title'', JStr ''zh: two sum''),
                          (''content'', JStr ''<p>''), (''translated_content'', JStr ''<p>zh'')]"]
  by (simp add: demo_cnFill demo_localize) (simp add: demo_items_def)

section \<open>Checking a submission\<close>

text \<open>
  Claim C9. With a session and a valid id, when the \<open>slug\<close> parameter is read and the
  status endpoint answers the request within 200 to 299 with a body that parses, the
  answer to the browser is that parsed value, whatever it says, the one call made is the
  status request, and the session store is left exactly as it was: nothing is recorded
  about the submission.
\<close>

theorem check_passes_through:
  assumes "getSession req st = Some s"
      and "isFinite (StringToNumber E (id_param req))"
      and "\<not> num_le0 (StringToNumber E (id_param req))"
      and "check_slug E req = Inr titleSlug"
      and "check_request E (Some s) (StringToNumber E (id_param req)) titleSlug = Inr rq"
      and "net calls rq = Resolves resp"
      and "ok resp"
      and "content resp = Text t (Some j)"
      and "t \<noteq> []"
  shows "get_submission_check E net req st calls =
           (Inr (respond 200 [(''submission'', j)]), st, calls @ [rq])"
proof -
  have "lcSubmissionCheck E net (Some s) (StringToNumber E (id_param req)) titleSlug calls =
          (Inr (Success (status resp) j), calls @ [rq])"
    using assms(6-9) by (simp add: lcSubmissionCheck_built [OF assms(5)] check_result_def json_of_def)
  then show ?thesis
    using assms(1-4) by (simp add: get_submission_check_def Let_def)
qed

lemma demo_getSession: "getSession (get_check n) [''sid-1'' \<mapsto> demo_session] = Some demo_session"
  by (simp add: getSession_def get_check_def str_truthy_def)

lemma demo_check_slug: "check_slug demo_ecma (get_check ''1001'') = Inr None"
  by code_simp

lemma demo_check_request:
  "check_request demo_ecma (Some demo_session) (Fin 1001) None = Inr (check_sent (Some demo_session))"
  by code_simp

theorem check_passes_through_witness:
  "get_submission_check demo_ecma (answers judged) (get_check ''1001'') [''sid-1'' \<mapsto> demo_session] [] =
     (Inr (respond 200 [(''submission'', judged)]), [''sid-1'' \<mapsto> demo_session],
      [check_sent (Some demo_session)])"
proof -
  have id: "StringToNumber demo_ecma (id_param (get_check ''1001'')) = Fin 1001"
    by (simp add: demo_ecma_def get_check_def)
  have 2: "isFinite (StringToNumber demo_ecma (id_param (get_check ''1001'')))"
    and 3: "\<not> num_le0 (StringToNumber demo_ecma (id_param (get_check ''1001'')))"
    by (simp_all add: id)
  have 5: "check_request demo_ecma (Some demo_session) (StringToNumber demo_ecma (id_param (get_check ''1001'')))
             None = Inr (check_sent (Some demo_session))"
    unfolding id by (rule demo_check_request)
  have 6: "answers judged [] (check_sent (Some demo_session))
           = Resolves \<lparr>status = 200, content = Text ''{...}'' (Some judged)\<rparr>"
    by (simp add: answers_def)
  have 7: "ok \<lparr>status = 200, content = Text ''{...}'' (Some judged)\<rparr>"
    by (simp add: ok_def)
  show ?thesis
    using check_passes_through [where net = "answers judged" and calls = "[]" and t = "''{...}''"
            and j = judged, OF demo_getSession 2 3 demo_check_slug 5 6 7]
    by simp
qed

section \<open>The language preference of a session\<close>

lemma list_problems_store:
  "store_after (list_problems E net req s q category lang st calls) =
     (if wants_zh lang then st(the (lc_sid req) \<mapsto> s\<lparr>acceptLanguage := Some zh_CN\<rparr>) else st)"
  by (simp add: list_problems_def store_after_def Let_def split: prod.splits sum.splits option.splits)

lemma get_problems_read:
  "getSession req st = Some s \<Longrightarrow> list_query E req = Inr (q, category, lang) \<Longrightarrow>
     get_problems E net req st calls = list_problems E net req s q category lang st calls"
  by (simp add: get_problems_def)

lemma get_problems_thrown:
  "getSession req st = Some s \<Longrightarrow> list_query E req = Inl e \<Longrightarrow>
     get_problems E net req st calls = (Inl e, st, calls)"
  by (simp add: get_problems_def)

lemma get_problems_no_session:
  "getSession req st = None \<Longrightarrow> get_problems E net req st calls = (Inr NOT_AUTHENTICATED, st, calls)"
  by (simp add: get_problems_def)

lemma query_text_Inl:
  "(query_text E req k dflt = Inl e) = (e = TypeError \<and> (\<exists>v. property (req_query req) k = Some v \<and> unprintable v))"
  by (simp add: query_text_def and_then_eq_Inl or_default_Inl)

lemma query_text_cases: "(\<exists>t. query_text E req k dflt = Inr t) \<or> query_text E req k dflt = Inl TypeError"
  using query_text_Inl [of E req k dflt] by (cases "query_text E req k dflt") auto

lemma query_text_Inr:
  "(\<exists>t. query_text E req k dflt = Inr t) = (\<nexists>v. property (req_query req) k = Some v \<and> unprintable v)"
proof (cases "query_text E req k dflt")
  case (Inl e)
  then show ?thesis using query_text_Inl [of E req k dflt e] by auto
next
  case (Inr t)
  then show ?thesis using query_text_Inl [of E req k dflt TypeError] by auto
qed

lemma list_query_Inl:
  "(list_query E req = Inl e) =
     (e = TypeError \<and> (\<exists>k \<in> {''q'', ''category'', ''lang''}. \<exists>v. property (req_query req) k = Some v \<and> unprintable v))"
proof -
  define P where "P k = (\<exists>v. property (req_query req) k = Some v \<and> unprintable v)" for k
  have I: "(query_text E req k d = Inl e) = (e = TypeError \<and> P k)" for k d
    by (simp add: query_text_Inl P_def)
  have R: "(\<exists>t. query_text E req k d = Inr t) = (\<not> P k)" for k d
    by (simp add: query_text_Inr P_def)
  have "(list_query E req = Inl e) =
          ((e = TypeError \<and> P ''q'')
           \<or> ((\<exists>t. query_text E req ''q'' [] = Inr t)
               \<and> ((e = TypeError \<and> P ''category'')
                  \<or> ((\<exists>t. query_text E req ''category'' ''algorithms'' = Inr t) \<and> e = TypeError \<and> P ''lang''))))"
    by (auto simp: list_query_def and_then_eq_Inl I)
  also have "\<dots> = (e = TypeError \<and> (P ''q'' \<or> P ''category'' \<or> P ''lang''))"
    unfolding R by blast
  finally show ?thesis by (simp add: P_def)
qed

lemma text_of_or_default: "text_of E (the (js_or (Some (JStr l)) (Some (JStr [])))) = l"
  by (simp add: js_or_def)

lemma list_query_lang:
  assumes "list_query E req = Inr (q, category, lang)" and "property (req_query req) ''lang'' = Some (JStr l)"
  shows "lang = toLowerCase (trim l)"
proof -
  from assms(1) obtain t where t: "query_text E req ''lang'' [] = Inr t" and l: "lang = toLowerCase t"
    by (auto simp: list_query_def and_then_eq_Inr)
  have "t = trim l"
    using t assms(2) by (auto simp: query_text_def js_or_def opt_String_def js_String_def split: if_splits)
  then show ?thesis using l by simp
qed

lemma zh_CN_truthy: "str_truthy (Some zh_CN)"
  by (simp add: str_truthy_def zh_CN_def)

lemma zh_CN_kept: "normalize_value zh_CN = zh_CN"
  by (rule normalize_value_id) (simp_all add: zh_CN_def http_space_def)

lemma language_header_sent:
  assumes "lcFetch_request (Some s) path i = Inr rq" and "acceptLanguage s = Some zh_CN"
      and "\<not> has (headers i) ''accept-language''"
  shows "header rq ''accept-language'' = Some zh_CN"
  using lcFetch_headers_values(3) [OF request_parts(4) [OF assms(1)]] assms(2,3) zh_CN_truthy
  by (simp add: header_def zh_CN_kept)

lemma helpers_send_no_language:
  "\<not> has (headers (graphql_init q v)) ''accept-language''
   \<and> \<not> has (headers (submit_init so slug qid lang typedCode)) ''accept-language''
   \<and> \<not> has (headers (check_init E so n t)) ''accept-language''
   \<and> \<not> has (headers rest_init) ''accept-language''"
  by (simp add: has_def graphql_init_def submit_init_def check_init_def rest_init_def)

text \<open>
  Claim C10. For a request with a session, the handler first reads \<open>q\<close>, \<open>category\<close> and
  \<open>lang\<close>; a \<open>lang\<close> that is a string is read as that string, trimmed and lower-cased. When
  what is read is \<open>zh\<close>, \<open>zh-cn\<close> or \<open>cn\<close>, the store the handler leaves holds that
  session with \<open>acceptLanguage\<close> set to the Chinese preference, whatever else the request
  ends in, and a later request built with the stored session carries it as
  \<open>accept-language\<close>, no helper supplying a header of its own. With any other \<open>lang\<close> the
  store is left as it was. Reading fails only on a parameter that is an object with a
  property \<open>toString\<close> of its own, or an array holding one, which a query string of plain
  \<open>name=value\<close> pairs never gives; the handler then ends in a TypeError with the store as
  it was.
\<close>

theorem language_preference_persists:
  assumes "getSession req st = Some s"
  shows "(list_query E req = Inr (q, category, lang) \<and> wants_zh lang \<longrightarrow>
            store_after (get_problems E net req st calls)
              = st(the (lc_sid req) \<mapsto> s\<lparr>acceptLanguage := Some zh_CN\<rparr>)
            \<and> getSession req (store_after (get_problems E net req st calls))
                = Some (s\<lparr>acceptLanguage := Some zh_CN\<rparr>)
            \<and> (lcFetch_request (getSession req (store_after (get_problems E net req st calls))) path i = Inr rq
                 \<and> \<not> has (headers i) ''accept-language'' \<longrightarrow>
                 header rq ''accept-language'' = Some zh_CN))
       \<and> (list_query E req = Inr (q, category, lang) \<and> \<not> wants_zh lang \<longrightarrow>
            store_after (get_problems E net req st calls) = st)
       \<and> (list_query E req = Inr (q, category, lang) \<and> property (req_query req) ''lang'' = Some (JStr l) \<longrightarrow>
            lang = toLowerCase (trim l))
       \<and> (list_query E req = Inl e \<longrightarrow> get_problems E net req st calls = (Inl e, st, calls))
       \<and> (list_query E req = Inl e)
           = (e = TypeError
              \<and> (\<exists>k \<in> {''q'', ''category'', ''lang''}. \<exists>v. property (req_query req) k = Some v \<and> unprintable v))
       \<and> \<not> has (headers (graphql_init q' v)) ''accept-language''
       \<and> \<not> has (headers (submit_init so slug qid lang' typedCode)) ''accept-language''
       \<and> \<not> has (headers (check_init E so n t)) ''accept-language''
       \<and> \<not> has (headers rest_init) ''accept-language''"
proof -
  have sid: "str_truthy (lc_sid req)"
    using assms by (auto simp: getSession_def split: if_splits)
  have a: "store_after (get_problems E net req st calls)
             = st(the (lc_sid req) \<mapsto> s\<lparr>acceptLanguage := Some zh_CN\<rparr>)"
    and b: "getSession req (store_after (get_problems E net req st calls))
              = Some (s\<lparr>acceptLanguage := Some zh_CN\<rparr>)"
    and c: "lcFetch_request (getSession req (store_after (get_problems E net req st calls))) path i = Inr rq
              \<and> \<not> has (headers i) ''accept-language'' \<longrightarrow>
              header rq ''accept-language'' = Some zh_CN"
    if r: "list_query E req = Inr (q, category, lang)" and w: "wants_zh lang"
  proof -
    show a: "store_after (get_problems E net req st calls)
             = st(the (lc_sid req) \<mapsto> s\<lparr>acceptLanguage := Some zh_CN\<rparr>)"
      using w by (simp add: get_problems_read [OF assms r] list_problems_store)
    show b: "getSession req (store_after (get_problems E net req st calls))
              = Some (s\<lparr>acceptLanguage := Some zh_CN\<rparr>)"
      unfolding a using sid by (simp add: getSession_def)
    show "lcFetch_request (getSession req (store_after (get_problems E net req st calls))) path i = Inr rq
              \<and> \<not> has (headers i) ''accept-language'' \<longrightarrow>
              header rq ''accept-language'' = Some zh_CN"
      unfolding b using language_header_sent [of "s\<lparr>acceptLanguage := Some zh_CN\<rparr>" path i rq] by simp
  qed
  have d: "list_query E req = Inr (q, category, lang) \<and> \<not> wants_zh lang \<longrightarrow>
             store_after (get_problems E net req st calls) = st"
    using get_problems_read [OF assms, of E q category lang net calls] by (simp add: list_problems_store)
  have f: "list_query E req = Inr (q, category, lang) \<and> property (req_query req) ''lang'' = Some (JStr l) \<longrightarrow>
             lang = toLowerCase (trim l)"
    using list_query_lang [of E req q category lang l] by blast
  have g: "list_query E req = Inl e \<longrightarrow> get_problems E net req st calls = (Inl e, st, calls)"
    using get_problems_thrown [OF assms, of E e net calls] by blast
  have h: "\<not> has (headers (graphql_init q' v)) ''accept-language''"
    "\<not> has (headers (submit_init so slug qid lang' typedCode)) ''accept-language''"
    "\<not> has (headers (check_init E so n t)) ''accept-language''"
    "\<not> has (headers rest_init) ''accept-language''"
    using helpers_send_no_language [of q' v so slug qid lang' typedCode E n t] by simp_all
  have abc: "list_query E req = Inr (q, category, lang) \<and> wants_zh lang \<longrightarrow>
            store_after (get_problems E net req st calls)
              = st(the (lc_sid req) \<mapsto> s\<lparr>acceptLanguage := Some zh_CN\<rparr>)
            \<and> getSession req (store_after (get_problems E net req st calls))
                = Some (s\<lparr>acceptLanguage := Some zh_CN\<rparr>)
            \<and> (lcFetch_request (getSession req (store_after (get_problems E net req st calls))) path i = Inr rq
                 \<and> \<not> has (headers i) ''accept-language'' \<longrightarrow>
                 header rq ''accept-language'' = Some zh_CN)"
    using a b c by blast
  show ?thesis
    by (intro conjI abc d f g h list_query_Inl)
qed

lemma list_zh: "list_query demo_ecma (get_list '' ZH '') = Inr ([], ''algorithms'', ''zh'')"
  by code_simp

lemma list_en: "list_query demo_ecma (get_list ''en'') = Inr ([], ''algorithms'', ''en'')"
  by code_simp

lemma list_getSession: "getSession (get_list l) [''sid-1'' \<mapsto> s] = Some s"
  by (simp add: getSession_def get_list_def str_truthy_def)

theorem language_preference_persists_witness:
  "list_query demo_ecma (get_list '' ZH '') = Inr ([], ''algorithms'', ''zh'')
   \<and> wants_zh ''zh''
   \<and> store_after (get_problems demo_ecma unreachable (get_list '' ZH '')
                    [''sid-1'' \<mapsto> demo_session\<lparr>acceptLanguage := None\<rparr>] [])
       = [''sid-1'' \<mapsto> demo_session]
   \<and> lcFetch_request
        (getSession (get_list '' ZH '')
           (store_after (get_problems demo_ecma unreachable (get_list '' ZH '')
                           [''sid-1'' \<mapsto> demo_session\<lparr>acceptLanguage := None\<rparr>] [])))
        ''/graphql/'' (graphql_init QUERY_USER_COM (JObj []))
       = Inr (graphql_sent demo_cookie ''abc'')
   \<and> header (graphql_sent demo_cookie ''abc'') ''accept-language'' = Some zh_CN
   \<and> list_query demo_ecma (get_list ''en'') = Inr ([], ''algorithms'', ''en'')
   \<and> store_after (get_problems demo_ecma unreachable (get_list ''en'')
                    [''sid-1'' \<mapsto> demo_session\<lparr>acceptLanguage := None\<rparr>] [])
       = [''sid-1'' \<mapsto> demo_session\<lparr>acceptLanguage := None\<rparr>]"
proof -
  note zh = language_preference_persists [OF list_getSession, where l1 = "'' ZH ''"
              and s = "demo_session\<lparr>acceptLanguage := None\<rparr>" and E = demo_ecma and net = unreachable
              and calls = "[]" and q = "[]" and category = "''algorithms''" and lang = "''zh''"
              and i = "graphql_init QUERY_USER_COM (JObj [])" and path = "''/graphql/''"
              and rq = "graphql_sent demo_cookie ''abc''"]
  note en = language_preference_persists [OF list_getSession, where l1 = "''en''"
              and s = "demo_session\<lparr>acceptLanguage := None\<rparr>" and E = demo_ecma and net = unreachable
              and calls = "[]" and q = "[]" and category = "''algorithms''" and lang = "''en''"]
  have A: "wants_zh ''zh''" and B: "\<not> wants_zh ''en''"
    by (simp_all add: wants_zh_def)
  have C: "\<not> has (headers (graphql_init QUERY_USER_COM (JObj []))) ''accept-language''"
    by (simp add: has_def graphql_init_def)
  have D: "demo_session\<lparr>acceptLanguage := None, acceptLanguage := Some zh_CN\<rparr> = demo_session"
    by (simp add: demo_session_def)
  have sid: "the (lc_sid (get_list '' ZH '')) = ''sid-1''"
    by (simp add: get_list_def)
  have 1: "store_after (get_problems demo_ecma unreachable (get_list '' ZH '')
                    [''sid-1'' \<mapsto> demo_session\<lparr>acceptLanguage := None\<rparr>] [])
             = [''sid-1'' \<mapsto> demo_session]"
    using zh list_zh A by (simp add: D sid)
  have 2: "getSession (get_list '' ZH '')
             (store_after (get_problems demo_ecma unreachable (get_list '' ZH '')
                             [''sid-1'' \<mapsto> demo_session\<lparr>acceptLanguage := None\<rparr>] []))
           = Some demo_session"
    unfolding 1 by (rule list_getSession)
  have 3: "header (graphql_sent demo_cookie ''abc'') ''accept-language'' = Some zh_CN"
    using zh list_zh A C unfolding 2 by (simp add: demo_request)
  have 4: "store_after (get_problems demo_ecma unreachable (get_list ''en'')
                    [''sid-1'' \<mapsto> demo_session\<lparr>acceptLanguage := None\<rparr>] [])
       = [''sid-1'' \<mapsto> demo_session\<lparr>acceptLanguage := None\<rparr>]"
    using en list_en B by simp
  show ?thesis
    using 1 3 4 A list_zh list_en unfolding 2 by (simp add: demo_request)
qed


end
